theory Spec2Isabelle
  imports Complex_Main "HOL-Library.AList" "HOL-Library.Sublist" "HOL-Library.Multiset"
begin

section \<open>JavaScript numbers\<close>

text \<open>
  The derivations of \<^verbatim>\<open>FinTrack.tsx\<close> compute with JavaScript numbers. A number is
  modelled by its special values and, when finite, by its exact rational value:
  \<open>NaN\<close>, the two infinities, negative zero \<open>NZero\<close>, and \<open>Fin r\<close> (\<open>Fin 0\<close> is
  positive zero). The rounding of binary64 and its overflow to an infinity are not part
  of the model: a finite result is the exact one. What the model keeps is what the
  derivations branch on: \<open>NaN\<close> propagation, division by a zero, the sign of a value,
  comparison with \<open>0\<close> and truthiness.
\<close>

datatype jsnum = NaN | PInf | NInf | NZero | Fin rat

fun isZero :: "jsnum \<Rightarrow> bool" where
  "isZero NZero = True"
| "isZero (Fin r) = (r = 0)"
| "isZero _ = False"

fun isInf :: "jsnum \<Rightarrow> bool" where
  "isInf PInf = True"
| "isInf NInf = True"
| "isInf _ = False"

fun signBit :: "jsnum \<Rightarrow> bool" where
  "signBit NInf = True"
| "signBit NZero = True"
| "signBit (Fin r) = (r < 0)"
| "signBit _ = False"

fun finVal :: "jsnum \<Rightarrow> rat" where
  "finVal (Fin r) = r"
| "finVal _ = 0"

fun js_neg :: "jsnum \<Rightarrow> jsnum" where
  "js_neg NaN = NaN"
| "js_neg PInf = NInf"
| "js_neg NInf = PInf"
| "js_neg NZero = Fin 0"
| "js_neg (Fin r) = (if r = 0 then NZero else Fin (- r))"

text \<open>\<open>a + b\<close> on numbers.\<close>

fun js_add :: "jsnum \<Rightarrow> jsnum \<Rightarrow> jsnum" where
  "js_add NaN b = NaN"
| "js_add a NaN = NaN"
| "js_add PInf NInf = NaN"
| "js_add NInf PInf = NaN"
| "js_add PInf b = PInf"
| "js_add a PInf = PInf"
| "js_add NInf b = NInf"
| "js_add a NInf = NInf"
| "js_add NZero b = b"
| "js_add a NZero = a"
| "js_add (Fin a) (Fin b) = Fin (a + b)"

text \<open>\<open>a - b\<close>: the sum of \<open>a\<close> and the negation of \<open>b\<close>.\<close>

definition js_sub :: "jsnum \<Rightarrow> jsnum \<Rightarrow> jsnum" where
  "js_sub a b = js_add a (js_neg b)"

definition signedInf :: "bool \<Rightarrow> jsnum" where
  "signedInf neg = (if neg then NInf else PInf)"

definition signedZero :: "bool \<Rightarrow> jsnum" where
  "signedZero neg = (if neg then NZero else Fin 0)"

text \<open>\<open>a * b\<close>.\<close>

definition js_mul :: "jsnum \<Rightarrow> jsnum \<Rightarrow> jsnum" where
  "js_mul a b =
     (if a = NaN \<or> b = NaN then NaN
      else if (isZero a \<and> isInf b) \<or> (isInf a \<and> isZero b) then NaN
      else if isInf a \<or> isInf b then signedInf (signBit a \<noteq> signBit b)
      else if isZero a \<or> isZero b then signedZero (signBit a \<noteq> signBit b)
      else Fin (finVal a * finVal b))"

text \<open>\<open>a / b\<close>: a zero divisor gives an infinity, or \<open>NaN\<close> for \<open>0 / 0\<close>.\<close>

definition js_div :: "jsnum \<Rightarrow> jsnum \<Rightarrow> jsnum" where
  "js_div a b =
     (if a = NaN \<or> b = NaN then NaN
      else if (isZero a \<and> isZero b) \<or> (isInf a \<and> isInf b) then NaN
      else if isInf a \<or> isZero b then signedInf (signBit a \<noteq> signBit b)
      else if isZero a \<or> isInf b then signedZero (signBit a \<noteq> signBit b)
      else Fin (finVal a / finVal b))"

text \<open>
  Comparison: every comparison with \<open>NaN\<close> is false, the two zeros are equal, and the
  infinities lie outside the finite values.
\<close>

fun js_lt :: "jsnum \<Rightarrow> jsnum \<Rightarrow> bool" where
  "js_lt NaN b = False"
| "js_lt a NaN = False"
| "js_lt PInf b = False"
| "js_lt a NInf = False"
| "js_lt a PInf = True"
| "js_lt NInf b = True"
| "js_lt a b = (finVal a < finVal b)"

definition js_gt :: "jsnum \<Rightarrow> jsnum \<Rightarrow> bool" where
  "js_gt a b = js_lt b a"

definition js_ge :: "jsnum \<Rightarrow> jsnum \<Rightarrow> bool" where
  "js_ge a b = (a \<noteq> NaN \<and> b \<noteq> NaN \<and> \<not> js_lt a b)"

text \<open>Truthiness of a number: \<open>NaN\<close> and the zeros are falsy.\<close>

definition truthy :: "jsnum \<Rightarrow> bool" where
  "truthy n = (n \<noteq> NaN \<and> \<not> isZero n)"

text \<open>\<open>n || 0\<close>.\<close>

definition orZero :: "jsnum \<Rightarrow> jsnum" where
  "orZero n = (if truthy n then n else Fin 0)"

section \<open>Strings to numbers\<close>

text \<open>
  \<^verbatim>\<open>parseFloat\<close> skips leading white space and reads the longest prefix that is a
  decimal literal (sign, digits, fraction, exponent, or \<^verbatim>\<open>Infinity\<close>); with no such
  prefix the result is \<open>NaN\<close>. Strings are byte strings; white space is the ASCII one.
\<close>

definition startsWith :: "string \<Rightarrow> string \<Rightarrow> bool" where
  "startsWith s p = (take (length p) s = p)"

definition isDigit :: "char \<Rightarrow> bool" where
  "isDigit c = (48 \<le> (of_char c :: nat) \<and> (of_char c :: nat) \<le> 57)"

definition isWhite :: "char \<Rightarrow> bool" where
  "isWhite c = ((of_char c :: nat) \<in> {9, 10, 11, 12, 13, 32})"

definition digitsVal :: "string \<Rightarrow> nat" where
  "digitsVal ds = foldl (\<lambda>a c. 10 * a + ((of_char c :: nat) - 48)) 0 ds"

definition pow10 :: "int \<Rightarrow> rat" where
  "pow10 e = (if 0 \<le> e then 10 ^ nat e else 1 / 10 ^ nat (- e))"

text \<open>The exponent part, read only when a digit follows the indicator and its sign.\<close>

definition parseExponent :: "string \<Rightarrow> int \<times> string" where
  "parseExponent r =
     (case r of
        [] \<Rightarrow> (0, r)
      | c # r' \<Rightarrow>
          if c = CHR ''e'' \<or> c = CHR ''E'' then
            (let (sg, r'') =
                   (case r' of
                      [] \<Rightarrow> (1, r')
                    | d # t \<Rightarrow>
                        if d = CHR ''+'' then (1, t)
                        else if d = CHR ''-'' then (- 1, t)
                        else (1, r'));
                 ds = takeWhile isDigit r''
             in if ds = [] then (0, r)
                else (sg * int (digitsVal ds), dropWhile isDigit r''))
          else (0, r))"

definition parseUnsigned :: "string \<Rightarrow> (jsnum \<times> string) option" where
  "parseUnsigned s =
     (if startsWith s ''Infinity'' then Some (PInf, drop 8 s)
      else
        (let ip = takeWhile isDigit s;
             r1 = dropWhile isDigit s;
             (fp, r2) =
               (case r1 of
                  [] \<Rightarrow> ([], r1)
                | c # r \<Rightarrow>
                    if c = CHR ''.'' \<and> (ip \<noteq> [] \<or> takeWhile isDigit r \<noteq> [])
                    then (takeWhile isDigit r, dropWhile isDigit r)
                    else ([], r1))
         in if ip = [] \<and> fp = [] then None
            else
              (let (e, r3) = parseExponent r2
               in Some (Fin (of_nat (digitsVal (ip @ fp)) * pow10 (e - int (length fp))), r3))))"

definition parseSigned :: "string \<Rightarrow> (jsnum \<times> string) option" where
  "parseSigned s =
     (case s of
        [] \<Rightarrow> None
      | c # r \<Rightarrow>
          if c = CHR ''+'' then parseUnsigned r
          else if c = CHR ''-'' then map_option (\<lambda>(v, rest). (js_neg v, rest)) (parseUnsigned r)
          else parseUnsigned s)"

definition parseFloat :: "string \<Rightarrow> jsnum" where
  "parseFloat s =
     (case parseSigned (dropWhile isWhite s) of
        None \<Rightarrow> NaN
      | Some (v, rest) \<Rightarrow> v)"

text \<open>
  Conversion of a string to a number, as the operators \<^verbatim>\<open>-\<close> and \<^verbatim>\<open>/\<close> apply it to a string
  operand: white space is trimmed at both ends, the empty string is \<open>0\<close>, and the whole
  rest must be one literal (decimal, or hexadecimal, octal or binary with its prefix).
\<close>

definition isHexDigit :: "char \<Rightarrow> bool" where
  "isHexDigit c =
     (let n = (of_char c :: nat)
      in (48 \<le> n \<and> n \<le> 57) \<or> (65 \<le> n \<and> n \<le> 70) \<or> (97 \<le> n \<and> n \<le> 102))"

definition hexDigitVal :: "char \<Rightarrow> nat" where
  "hexDigitVal c =
     (let n = (of_char c :: nat)
      in if n \<le> 57 then n - 48 else if n \<le> 70 then n - 55 else n - 87)"

definition radixVal :: "nat \<Rightarrow> string \<Rightarrow> nat" where
  "radixVal b ds = foldl (\<lambda>a c. b * a + hexDigitVal c) 0 ds"

definition radixLiteral :: "nat \<Rightarrow> string \<Rightarrow> jsnum" where
  "radixLiteral b ds =
     (if ds \<noteq> [] \<and> list_all (\<lambda>c. isHexDigit c \<and> hexDigitVal c < b) ds
      then Fin (of_nat (radixVal b ds)) else NaN)"

definition trimWhite :: "string \<Rightarrow> string" where
  "trimWhite s = rev (dropWhile isWhite (rev (dropWhile isWhite s)))"

definition toNumber :: "string \<Rightarrow> jsnum" where
  "toNumber s =
     (let t = trimWhite s
      in if t = [] then Fin 0
         else if startsWith t ''0x'' \<or> startsWith t ''0X'' then radixLiteral 16 (drop 2 t)
         else if startsWith t ''0o'' \<or> startsWith t ''0O'' then radixLiteral 8 (drop 2 t)
         else if startsWith t ''0b'' \<or> startsWith t ''0B'' then radixLiteral 2 (drop 2 t)
         else (case parseSigned t of
                 Some (v, []) \<Rightarrow> v
               | _ \<Rightarrow> NaN))"

section \<open>Data model\<close>

text \<open>
  The records the queries deliver (\<^verbatim>\<open>Transaction\<close>, \<^verbatim>\<open>Goal\<close>, \<^verbatim>\<open>User\<close>). The amounts of
  a transaction and of a goal are decimal strings, which the metrics and the insights
  read through \<^verbatim>\<open>parseFloat\<close>.
\<close>

record transaction =
  tid :: string
  date :: string
  amount :: string
  ttype :: string
  category :: string

record goal =
  gid :: string
  name :: string
  current :: string
  target :: string

record user =
  currency :: string
  language :: string

section \<open>Monthly metrics\<close>

record metrics =
  income :: jsnum
  expenses :: jsnum
  totalBudget :: jsnum
  usedPercent :: jsnum
  remaining :: jsnum
  savingsRate :: jsnum

text \<open>\<^verbatim>\<open>.reduce((s, t) => s + parseFloat(t.amount), 0)\<close>\<close>

definition sumAmounts :: "transaction list \<Rightarrow> jsnum" where
  "sumAmounts ts = foldl (\<lambda>s t. js_add s (parseFloat (amount t))) (Fin 0) ts"

definition financialMetrics :: "string \<Rightarrow> transaction list \<Rightarrow> metrics" where
  "financialMetrics currentMonth transactions =
     (let monthTx = filter (\<lambda>t. startsWith (date t) currentMonth) transactions;
          inc = sumAmounts (filter (\<lambda>t. ttype t = ''income'') monthTx);
          exps = sumAmounts (filter (\<lambda>t. ttype t = ''expense'') monthTx);
          budget = Fin 2500;
          used = (if js_gt budget (Fin 0) then js_mul (js_div exps budget) (Fin 100) else Fin 0);
          rem = js_sub budget exps;
          rate = (if js_gt inc (Fin 0) then js_mul (js_div (js_sub inc exps) inc) (Fin 100)
                  else Fin 0)
      in \<lparr> income = inc, expenses = exps, totalBudget = budget, usedPercent = used,
           remaining = rem, savingsRate = rate \<rparr>)"

section \<open>Pie chart data\<close>

record pieSlice =
  sliceName :: string
  sliceValue :: jsnum
  sliceColor :: string

definition pieChartData :: "metrics \<Rightarrow> pieSlice list" where
  "pieChartData m =
     (let d1 = (if js_gt (income m) (Fin 0)
                then [\<lparr> sliceName = ''Income'', sliceValue = income m,
                        sliceColor = ''hsl(var(--chart-1))'' \<rparr>]
                else []);
          d2 = (if js_gt (expenses m) (Fin 0)
                then d1 @ [\<lparr> sliceName = ''Expenses'', sliceValue = expenses m,
                             sliceColor = ''hsl(var(--chart-2))'' \<rparr>]
                else d1);
          savings = js_sub (income m) (expenses m)
      in if js_gt savings (Fin 0)
         then d2 @ [\<lparr> sliceName = ''Savings'', sliceValue = savings,
                       sliceColor = ''hsl(var(--primary))'' \<rparr>]
         else d2)"

section \<open>Sorting with a comparator\<close>

text \<open>
  \<^verbatim>\<open>Array.prototype.sort\<close> is stable. \<open>after a b\<close> says that the comparator's result on
  \<open>(a, b)\<close> is positive, so that \<open>a\<close> goes behind \<open>b\<close>; a \<open>NaN\<close> result counts as \<open>0\<close>.
  The sort is modelled by stable insertion. For a consistent comparator every stable
  sort returns this list; for an inconsistent one (a \<open>NaN\<close> key among different keys)
  the language leaves the order to the implementation, and nothing below that speaks
  of order covers that case.
\<close>

fun insertBy :: "('a \<Rightarrow> 'a \<Rightarrow> bool) \<Rightarrow> 'a \<Rightarrow> 'a list \<Rightarrow> 'a list" where
  "insertBy after x [] = [x]"
| "insertBy after x (y # ys) = (if after x y then y # insertBy after x ys else x # y # ys)"

definition jsSort :: "('a \<Rightarrow> 'a \<Rightarrow> bool) \<Rightarrow> 'a list \<Rightarrow> 'a list" where
  "jsSort after xs = foldr (insertBy after) xs []"

text \<open>The comparator \<^verbatim>\<open>(a, b) => key(b) - key(a)\<close>: descending by key.\<close>

definition descBy :: "('a \<Rightarrow> jsnum) \<Rightarrow> 'a \<Rightarrow> 'a \<Rightarrow> bool" where
  "descBy key a b = js_gt (js_sub (key b) (key a)) (Fin 0)"

section \<open>Recent transactions\<close>

text \<open>
  \<open>getTime s\<close> stands for \<^verbatim>\<open>new Date(s).getTime()\<close>, a function of the host: the time
  value of the date the string denotes, \<open>NaN\<close> for a string the host cannot read.
\<close>

definition recentTransactions ::
  "(string \<Rightarrow> jsnum) \<Rightarrow> string \<Rightarrow> transaction list \<Rightarrow> transaction list" where
  "recentTransactions getTime currentMonth transactions =
     take 5 (jsSort (descBy (\<lambda>t. getTime (date t)))
               (filter (\<lambda>t. startsWith (date t) currentMonth) transactions))"

section \<open>Objects used as dictionaries\<close>

text \<open>
  Both category breakdowns accumulate into the object literal \<^verbatim>\<open>{}\<close>. Its own properties
  are kept as an association list in creation order; assigning to an existing key keeps
  the key's place (\<open>AList.update\<close>). \<^verbatim>\<open>Object.entries\<close> lists the keys that are array
  indices first, in ascending numeric order, then the other keys in creation order.

  The object inherits from \<^verbatim>\<open>Object.prototype\<close>. Reading a key that is not an own
  property finds an inherited member when the key is one of the names below: for
  \<^verbatim>\<open>__proto__\<close> the prototype object, whose setter ignores the string assigned to it, so
  that the key never becomes an own property; for the others a function, which \<^verbatim>\<open>+\<close>
  turns into its source text. That text belongs to the host; a cell holding it (with
  whatever was appended) is \<open>HostText\<close>: a non-empty string that is not a numeric literal.
\<close>

datatype 'a cell = Val 'a | HostText

definition protoFunctions :: "string list" where
  "protoFunctions =
     [''constructor'', ''hasOwnProperty'', ''isPrototypeOf'', ''propertyIsEnumerable'',
      ''toLocaleString'', ''toString'', ''valueOf'', ''__defineGetter__'',
      ''__defineSetter__'', ''__lookupGetter__'', ''__lookupSetter__'']"

definition isArrayIndex :: "string \<Rightarrow> bool" where
  "isArrayIndex k =
     (k \<noteq> [] \<and> list_all isDigit k \<and> (k = ''0'' \<or> hd k \<noteq> CHR ''0'')
      \<and> digitsVal k < 4294967295)"

definition entries :: "(string \<times> 'v) list \<Rightarrow> (string \<times> 'v) list" where
  "entries obj =
     sort_key (\<lambda>e. digitsVal (fst e)) (filter (\<lambda>e. isArrayIndex (fst e)) obj)
     @ filter (\<lambda>e. \<not> isArrayIndex (fst e)) obj"

text \<open>
  One step of \<^verbatim>\<open>acc[k] = (acc[k] || 0) + x\<close>, given what \<^verbatim>\<open>+\<close> makes of an own value and
  of \<open>0\<close>.
\<close>

definition accumulate ::
  "('v \<Rightarrow> 'v) \<Rightarrow> 'v \<Rightarrow> string \<Rightarrow> (string \<times> 'v cell) list \<Rightarrow> (string \<times> 'v cell) list" where
  "accumulate grow fromZero k acc =
     (if k = ''__proto__'' then acc
      else
        (case map_of acc k of
           Some (Val v) \<Rightarrow> AList.update k (Val (grow v)) acc
         | Some HostText \<Rightarrow> AList.update k HostText acc
         | None \<Rightarrow>
             if k \<in> set protoFunctions then AList.update k HostText acc
             else AList.update k (Val fromZero) acc))"

section \<open>Insights\<close>

text \<open>
  The breakdown of the insights derivation:
  \<^verbatim>\<open>acc[t.category] = (acc[t.category] || 0) + parseFloat(t.amount)\<close>.
\<close>

definition categoryStep ::
  "(string \<times> jsnum cell) list \<Rightarrow> transaction \<Rightarrow> (string \<times> jsnum cell) list" where
  "categoryStep acc t =
     accumulate (\<lambda>n. js_add (orZero n) (parseFloat (amount t)))
       (js_add (Fin 0) (parseFloat (amount t))) (category t) acc"

definition categoryBreakdown :: "string \<Rightarrow> transaction list \<Rightarrow> (string \<times> jsnum cell) list" where
  "categoryBreakdown currentMonth transactions =
     foldl categoryStep []
       (filter (\<lambda>t. ttype t = ''expense'' \<and> startsWith (date t) currentMonth) transactions)"

text \<open>The number a cell stands for under \<^verbatim>\<open>b - a\<close>.\<close>

fun cellNumber :: "jsnum cell \<Rightarrow> jsnum" where
  "cellNumber (Val n) = n"
| "cellNumber HostText = NaN"

definition sortedBreakdown :: "string \<Rightarrow> transaction list \<Rightarrow> (string \<times> jsnum cell) list" where
  "sortedBreakdown currentMonth transactions =
     jsSort (descBy (\<lambda>e. cellNumber (snd e))) (entries (categoryBreakdown currentMonth transactions))"

text \<open>\<^verbatim>\<open>xs[0]\<close>: \<open>undefined\<close> on the empty array.\<close>

fun first :: "'a list \<Rightarrow> 'a option" where
  "first [] = None"
| "first (x # xs) = Some x"

definition topCategory :: "string \<Rightarrow> transaction list \<Rightarrow> (string \<times> jsnum cell) option" where
  "topCategory currentMonth transactions = first (sortedBreakdown currentMonth transactions)"

record goalProgress =
  goalName :: string
  progress :: jsnum

definition goalProgressOf :: "goal \<Rightarrow> goalProgress" where
  "goalProgressOf g =
     \<lparr> goalName = name g,
       progress = js_mul (js_div (parseFloat (current g)) (parseFloat (target g))) (Fin 100) \<rparr>"

definition rankedGoals :: "goal list \<Rightarrow> goalProgress list" where
  "rankedGoals goals = jsSort (descBy progress) (map goalProgressOf goals)"

definition topGoal :: "goal list \<Rightarrow> goalProgress option" where
  "topGoal goals = first (rankedGoals goals)"

text \<open>
  A message is a template literal. Two of its holes are filled by the host: \<open>Fixed1 n\<close>
  stands for \<^verbatim>\<open>n.toFixed(1)\<close> and \<open>Money c n\<close> for
  \<^verbatim>\<open>new Intl.NumberFormat('en-US', {style: 'currency', currency: c}).format(n)\<close>.
\<close>

datatype piece = Lit string | Fixed1 jsnum | Money string jsnum

text \<open>
  The constructor \<^verbatim>\<open>Intl.NumberFormat\<close> throws a \<^verbatim>\<open>RangeError\<close> for a currency code that
  is not well formed, that is, not three ASCII letters. It is the one operation of the
  derivations that can throw.
\<close>

datatype error = RangeError

definition isAsciiLetter :: "char \<Rightarrow> bool" where
  "isAsciiLetter c =
     (let n = (of_char c :: nat) in (65 \<le> n \<and> n \<le> 90) \<or> (97 \<le> n \<and> n \<le> 122))"

definition wellFormedCurrency :: "string \<Rightarrow> bool" where
  "wellFormedCurrency c = (length c = 3 \<and> list_all isAsciiLetter c)"

text \<open>\<^verbatim>\<open>user?.currency || 'USD'\<close>\<close>

definition currencyOf :: "user option \<Rightarrow> string" where
  "currencyOf u =
     (case u of
        None \<Rightarrow> ''USD''
      | Some usr \<Rightarrow> if currency usr = [] then ''USD'' else currency usr)"

text \<open>
  \<^verbatim>\<open>formatCurrency\<close> on a number, and on a cell of the category breakdown (a string
  argument goes through \<^verbatim>\<open>parseFloat\<close> first): the number, or \<open>0\<close> for a falsy one, is
  formatted in the user's currency.
\<close>

definition formatCurrency :: "user option \<Rightarrow> jsnum \<Rightarrow> error + piece" where
  "formatCurrency u numAmount =
     (if wellFormedCurrency (currencyOf u) then Inr (Money (currencyOf u) (orZero numAmount))
      else Inl RangeError)"

fun formatCell :: "user option \<Rightarrow> jsnum cell \<Rightarrow> error + piece" where
  "formatCell u (Val n) = formatCurrency u n"
| "formatCell u HostText = formatCurrency u NaN"

record insight =
  itype :: string
  color :: string
  icon :: string
  title :: string
  message :: "piece list"

definition apostrophe :: string where
  "apostrophe = [CHR 0x27]"

text \<open>
  The message of the spending insight, the only one that calls \<^verbatim>\<open>formatCurrency\<close>; the
  call is made only when there is a top category.
\<close>

definition spendingMessage ::
  "user option \<Rightarrow> string \<Rightarrow> transaction list \<Rightarrow> error + piece list" where
  "spendingMessage u currentMonth transactions =
     (case topCategory currentMonth transactions of
        Some (c, v) \<Rightarrow>
          (case formatCell u v of
             Inl e \<Rightarrow> Inl e
           | Inr shown \<Rightarrow>
               Inr [Lit ''Your top spending is '', Lit c, Lit '': '', shown,
                    Lit '' this month.''])
      | None \<Rightarrow> Inr [Lit ''No spending data available yet.''])"

text \<open>The array of the five insights, given the message of the second.\<close>

definition insightList :: "piece list \<Rightarrow> goal list \<Rightarrow> metrics \<Rightarrow> insight list" where
  "insightList spending goals fm =
     [\<lparr> itype = ''savings'', color = ''green'', icon = ''TrendingUp'',
        title = ''Savings Analysis'',
        message =
          (if js_gt (savingsRate fm) (Fin 0)
           then [Lit (''Excellent! You'' @ apostrophe @ ''re saving ''), Fixed1 (savingsRate fm),
                 Lit ''% of your income this month.'']
           else [Lit ''Start tracking your income to see your savings rate.'']) \<rparr>,
      \<lparr> itype = ''spending'', color = ''red'', icon = ''ShoppingBag'',
        title = ''Spending Pattern'',
        message = spending \<rparr>,
      \<lparr> itype = ''goals'', color = ''purple'', icon = ''Target'',
        title = ''Goal Progress'',
        message =
          (case topGoal goals of
             Some g \<Rightarrow>
               [Lit (goalName g), Lit '' is '', Fixed1 (progress g),
                Lit ''% complete - keep it up!'']
           | None \<Rightarrow> [Lit ''Set your first goal to start tracking progress!'']) \<rparr>,
      \<lparr> itype = ''habits'', color = ''indigo'', icon = ''Calendar'',
        title = ''Spending Habits'',
        message =
          (if js_lt (usedPercent fm) (Fin 80)
           then [Lit ''Great spending discipline this month!'']
           else [Lit (''You'' @ apostrophe
                      @ ''re approaching your budget limit - watch your spending!'')]) \<rparr>,
      \<lparr> itype = ''budget'', color = ''green'', icon = ''DollarSign'',
        title = ''Budget Status'',
        message = [Lit ''Budget looking good: '', Fixed1 (usedPercent fm), Lit ''% used''] \<rparr>]"

text \<open>
  The insights derivation: the five insights, or the error of \<^verbatim>\<open>formatCurrency\<close>, which
  leaves the derivation without a result.
\<close>

definition insights ::
  "user option \<Rightarrow> string \<Rightarrow> transaction list \<Rightarrow> goal list \<Rightarrow> metrics
   \<Rightarrow> error + insight list" where
  "insights u currentMonth transactions goals fm =
     (case spendingMessage u currentMonth transactions of
        Inl e \<Rightarrow> Inl e
      | Inr spending \<Rightarrow> Inr (insightList spending goals fm))"

section \<open>The breakdown of the Insights screen\<close>

text \<open>
  The screen computes the breakdown again, with
  \<^verbatim>\<open>acc[t.category] = (acc[t.category] || 0) + t.amount\<close>: the amount is the string of the
  record, so \<^verbatim>\<open>+\<close> appends it to the text of what is there (\<open>0\<close> at first, read as
  \<^verbatim>\<open>"0"\<close>).
\<close>

definition screenStep ::
  "(string \<times> string cell) list \<Rightarrow> transaction \<Rightarrow> (string \<times> string cell) list" where
  "screenStep acc t =
     accumulate (\<lambda>s. (if s = [] then ''0'' else s) @ amount t) (''0'' @ amount t) (category t) acc"

fun textNumber :: "string cell \<Rightarrow> jsnum" where
  "textNumber (Val s) = toNumber s"
| "textNumber HostText = NaN"

fun textParseFloat :: "string cell \<Rightarrow> jsnum" where
  "textParseFloat (Val s) = parseFloat s"
| "textParseFloat HostText = NaN"

text \<open>The entries the screen renders: \<^verbatim>\<open>Object.entries(...).sort(...).slice(0, 4)\<close>.\<close>

definition screenEntries :: "string \<Rightarrow> transaction list \<Rightarrow> (string \<times> string cell) list" where
  "screenEntries currentMonth transactions =
     take 4
       (jsSort (descBy (\<lambda>e. textNumber (snd e)))
          (entries
             (foldl screenStep []
                (filter (\<lambda>t. ttype t = ''expense'' \<and> startsWith (date t) currentMonth)
                   transactions))))"

record breakdownRow =
  rowCategory :: string
  rowAmount :: "string cell"
  rowShown :: piece
  rowPercentage :: jsnum

text \<open>One row: the percentage of the month's expenses, and the amount as currency.\<close>

definition screenRow ::
  "user option \<Rightarrow> string \<Rightarrow> transaction list \<Rightarrow> string \<times> string cell
   \<Rightarrow> error + breakdownRow" where
  "screenRow u currentMonth transactions e =
     (let exps = expenses (financialMetrics currentMonth transactions);
          percentage = (if js_gt exps (Fin 0)
                        then js_mul (js_div (textNumber (snd e)) exps) (Fin 100) else Fin 0)
      in case formatCurrency u (textParseFloat (snd e)) of
           Inl err \<Rightarrow> Inl err
         | Inr shown \<Rightarrow>
             Inr \<lparr> rowCategory = fst e, rowAmount = snd e, rowShown = shown,
                   rowPercentage = percentage \<rparr>)"

text \<open>\<^verbatim>\<open>.map\<close> with a callback that may throw: the first error ends it.\<close>

fun mapE :: "('a \<Rightarrow> error + 'b) \<Rightarrow> 'a list \<Rightarrow> error + 'b list" where
  "mapE f [] = Inr []"
| "mapE f (x # xs) =
     (case f x of
        Inl e \<Rightarrow> Inl e
      | Inr y \<Rightarrow> (case mapE f xs of Inl e \<Rightarrow> Inl e | Inr ys \<Rightarrow> Inr (y # ys)))"

definition screenBreakdown ::
  "user option \<Rightarrow> string \<Rightarrow> transaction list \<Rightarrow> error + breakdownRow list" where
  "screenBreakdown u currentMonth transactions =
     mapE (screenRow u currentMonth transactions) (screenEntries currentMonth transactions)"

section \<open>Example data\<close>

text \<open>The two transactions of the specification's example scenario.\<close>

definition march1 :: transaction where
  "march1 = \<lparr> tid = ''1'', date = ''2024-03-01'', amount = ''3000'', ttype = ''income'',
              category = ''salary'' \<rparr>"

definition march5 :: transaction where
  "march5 = \<lparr> tid = ''2'', date = ''2024-03-05'', amount = ''800'', ttype = ''expense'',
              category = ''rent'' \<rparr>"

text \<open>More transactions, and the time values of their dates.\<close>

definition march5b :: transaction where
  "march5b = \<lparr> tid = ''3'', date = ''2024-03-05'', amount = ''45.50'', ttype = ''expense'',
               category = ''food'' \<rparr>"

definition april2 :: transaction where
  "april2 = \<lparr> tid = ''4'', date = ''2024-04-02'', amount = ''20'', ttype = ''expense'',
               category = ''food'' \<rparr>"

definition exampleTime :: "string \<Rightarrow> jsnum" where
  "exampleTime s =
     (if s = ''2024-03-01'' then Fin 1709251200000
      else if s = ''2024-03-05'' then Fin 1709596800000
      else if s = ''2024-04-02'' then Fin 1712016000000
      else NaN)"

text \<open>A goal whose target is zero.\<close>

definition tripGoal :: goal where
  "tripGoal = \<lparr> gid = ''g1'', name = ''Trip'', current = ''500'', target = ''0'' \<rparr>"

text \<open>The goal of the specification's second example scenario.\<close>

definition emergencyFund :: goal where
  "emergencyFund = \<lparr> gid = ''g2'', name = ''Emergency Fund'', current = ''500'',
                     target = ''1000'' \<rparr>"


text \<open>Five expenses in five categories.\<close>

definition fiveExpenses :: "transaction list" where
  "fiveExpenses =
     [march5\<lparr> category := ''food'', amount := ''30'' \<rparr>,
      march5,
      march5\<lparr> category := ''fun'', amount := ''20'' \<rparr>,
      march5\<lparr> category := ''bus'', amount := ''10'' \<rparr>,
      march5\<lparr> category := ''gym'', amount := ''25'' \<rparr>]"

text \<open>Users: one with the currency EUR, two with a code that is not three letters.\<close>

definition euroUser :: user where
  "euroUser = \<lparr> currency = ''EUR'', language = ''en'' \<rparr>"

definition badUser :: user where
  "badUser = \<lparr> currency = ''XX1'', language = ''en'' \<rparr>"

definition shortUser :: user where
  "shortUser = \<lparr> currency = ''US'', language = ''en'' \<rparr>"

section \<open>Numbers: basic facts\<close>

lemmas parse_defs = parseFloat_def parseSigned_def parseUnsigned_def parseExponent_def
  startsWith_def isDigit_def isWhite_def digitsVal_def pow10_def

lemmas num_defs = js_sub_def js_mul_def js_div_def js_gt_def js_ge_def signedInf_def
  signedZero_def truthy_def orZero_def

lemma js_gt_pos: "js_gt v (Fin 0) \<Longrightarrow> \<not> js_lt v (Fin 0) \<and> \<not> isZero v"
  by (cases v) (auto simp: js_gt_def)

lemma js_sub_gt_zero: "js_gt (js_sub b a) (Fin 0) = js_lt a b"
  by (cases a; cases b) (auto simp: js_sub_def js_gt_def)

lemma js_lt_irrefl: "\<not> js_lt a a"
  by (cases a) simp_all

lemma js_lt_imp_ge: "js_lt a b \<Longrightarrow> js_ge b a"
  by (cases a; cases b) (auto simp: js_ge_def)

lemma js_not_lt_imp_ge: "a \<noteq> NaN \<Longrightarrow> b \<noteq> NaN \<Longrightarrow> \<not> js_lt a b \<Longrightarrow> js_ge a b"
  by (simp add: js_ge_def)

lemma js_ge_trans: "js_ge a b \<Longrightarrow> js_ge b c \<Longrightarrow> js_ge a c"
  by (cases a; cases b; cases c) (auto simp: js_ge_def)

section \<open>The stable sort\<close>

lemma descBy_lt: "descBy key a b = js_lt (key a) (key b)"
  by (simp add: descBy_def js_sub_gt_zero)

lemma length_insertBy: "length (insertBy after x ys) = Suc (length ys)"
  by (induction ys) simp_all

lemma length_jsSort: "length (jsSort after xs) = length xs"
  by (induction xs) (simp_all add: jsSort_def length_insertBy)

lemma mset_insertBy: "mset (insertBy after x ys) = add_mset x (mset ys)"
  by (induction ys) simp_all

lemma mset_jsSort: "mset (jsSort after xs) = mset xs"
  by (induction xs) (simp_all add: jsSort_def mset_insertBy)

lemma set_jsSort: "set (jsSort after xs) = set xs"
  using mset_jsSort [of after xs] by (metis set_mset_mset)

lemma jsSort_Cons: "jsSort after (x # xs) = insertBy after x (jsSort after xs)"
  by (simp add: jsSort_def)

lemma jsSort_Nil: "jsSort after xs = [] \<longleftrightarrow> xs = []"
  using length_jsSort [of after xs] by (metis length_0_conv)

text \<open>Elements with the same key keep their order.\<close>

lemma filter_insertBy_desc:
  "filter (\<lambda>y. key y = k) (insertBy (descBy key) x ys)
   = (if key x = k then x # filter (\<lambda>y. key y = k) ys else filter (\<lambda>y. key y = k) ys)"
  by (induction ys) (auto simp: descBy_lt js_lt_irrefl)

lemma filter_jsSort_desc:
  "filter (\<lambda>y. key y = k) (jsSort (descBy key) xs) = filter (\<lambda>y. key y = k) xs"
  by (induction xs) (simp_all add: jsSort_def filter_insertBy_desc)

text \<open>With no \<open>NaN\<close> key the result is in descending order of the keys.\<close>

lemma sorted_insertBy_desc:
  assumes "sorted_wrt (\<lambda>a b. js_ge (key a) (key b)) ys"
    and "key x \<noteq> NaN" and "\<forall>y \<in> set ys. key y \<noteq> NaN"
  shows "sorted_wrt (\<lambda>a b. js_ge (key a) (key b)) (insertBy (descBy key) x ys)"
  using assms
proof (induction ys)
  case Nil
  then show ?case by simp
next
  case (Cons y ys)
  show ?case
  proof (cases "js_lt (key x) (key y)")
    case True
    have tail: "sorted_wrt (\<lambda>a b. js_ge (key a) (key b)) (insertBy (descBy key) x ys)"
      using Cons by simp
    have "\<forall>z \<in> set (insertBy (descBy key) x ys). js_ge (key y) (key z)"
    proof
      fix z assume "z \<in> set (insertBy (descBy key) x ys)"
      then have "z \<in># mset (insertBy (descBy key) x ys)" by simp
      then have "z = x \<or> z \<in> set ys" by (simp add: mset_insertBy)
      then show "js_ge (key y) (key z)"
        using True Cons.prems(1) by (auto dest: js_lt_imp_ge)
    qed
    moreover have "descBy key x y" using True by (simp add: descBy_lt)
    ultimately show ?thesis using tail by simp
  next
    case False
    have xy: "js_ge (key x) (key y)"
      using False Cons.prems by (simp add: js_not_lt_imp_ge)
    have "\<forall>z \<in> set ys. js_ge (key x) (key z)"
      using xy Cons.prems(1) by (auto intro: js_ge_trans)
    moreover have "\<not> descBy key x y" using False by (simp add: descBy_lt)
    ultimately show ?thesis using xy Cons.prems(1) by simp
  qed
qed

lemma sorted_jsSort_desc:
  "\<forall>y \<in> set xs. key y \<noteq> NaN \<Longrightarrow>
   sorted_wrt (\<lambda>a b. js_ge (key a) (key b)) (jsSort (descBy key) xs)"
proof (induction xs)
  case Nil
  then show ?case by (simp add: jsSort_def)
next
  case (Cons x xs)
  then show ?case
    by (simp add: jsSort_Cons sorted_insertBy_desc set_jsSort)
qed

section \<open>Sums of amounts\<close>

lemma js_add_NaN_right: "js_add a NaN = NaN"
  by (cases a) simp_all

lemma foldl_add_from_NaN: "foldl (\<lambda>s t. js_add s (f t)) NaN ts = NaN"
  by (induction ts) simp_all

lemma foldl_add_has_NaN:
  "\<exists>t \<in> set ts. f t = NaN \<Longrightarrow> foldl (\<lambda>s t. js_add s (f t)) a ts = NaN"
proof (induction ts arbitrary: a)
  case Nil
  then show ?case by simp
next
  case (Cons t ts)
  show ?case
  proof (cases "f t = NaN")
    case True
    then show ?thesis by (simp add: js_add_NaN_right foldl_add_from_NaN)
  next
    case False
    with Cons.prems have "\<exists>t \<in> set ts. f t = NaN" by simp
    then show ?thesis using Cons.IH by simp
  qed
qed

lemma sumAmounts_has_NaN:
  "\<exists>t \<in> set ts. parseFloat (amount t) = NaN \<Longrightarrow> sumAmounts ts = NaN"
  unfolding sumAmounts_def by (rule foldl_add_has_NaN)

lemma js_add_nonneg:
  "js_ge a (Fin 0) \<Longrightarrow> js_ge b (Fin 0) \<Longrightarrow> js_ge (js_add a b) (Fin 0)"
  by (cases a; cases b) (auto simp: js_ge_def)

lemma foldl_add_nonneg:
  "js_ge a (Fin 0) \<Longrightarrow> \<forall>t \<in> set ts. js_ge (f t) (Fin 0) \<Longrightarrow>
   js_ge (foldl (\<lambda>s t. js_add s (f t)) a ts) (Fin 0)"
  by (induction ts arbitrary: a) (simp_all add: js_add_nonneg)

lemma sumAmounts_nonneg:
  "\<forall>t \<in> set ts. js_ge (parseFloat (amount t)) (Fin 0) \<Longrightarrow> js_ge (sumAmounts ts) (Fin 0)"
  unfolding sumAmounts_def by (rule foldl_add_nonneg) (simp_all add: js_ge_def)

lemma sumAmounts_snoc:
  "sumAmounts (ts @ [t]) = js_add (sumAmounts ts) (parseFloat (amount t))"
  by (simp add: sumAmounts_def)

lemma sumAmounts_finite:
  "\<forall>t \<in> set ts. \<exists>r. parseFloat (amount t) = Fin r \<Longrightarrow> \<exists>r. sumAmounts ts = Fin r"
proof (induction ts rule: rev_induct)
  case Nil
  then show ?case by (simp add: sumAmounts_def)
next
  case (snoc t ts)
  then obtain r where r: "sumAmounts ts = Fin r" by auto
  from snoc.prems obtain a where a: "parseFloat (amount t) = Fin a" by auto
  show ?case by (simp add: sumAmounts_snoc r a)
qed


lemma filter_month_type:
  "filter (\<lambda>t. ttype t = ty) (filter (\<lambda>t. startsWith (date t) cm) txs)
   = filter (\<lambda>t. startsWith (date t) cm \<and> ttype t = ty) txs"
  by (induction txs) auto

lemma income_eq: "income (financialMetrics cm txs)
     = sumAmounts (filter (\<lambda>t. startsWith (date t) cm \<and> ttype t = ''income'') txs)"
  by (simp add: financialMetrics_def Let_def filter_month_type)

lemma expenses_eq: "expenses (financialMetrics cm txs)
     = sumAmounts (filter (\<lambda>t. startsWith (date t) cm \<and> ttype t = ''expense'') txs)"
  by (simp add: financialMetrics_def Let_def filter_month_type)

lemma usedPercent_eq: "usedPercent (financialMetrics cm txs)
     = js_mul (js_div (expenses (financialMetrics cm txs)) (Fin 2500)) (Fin 100)"
  by (simp add: financialMetrics_def Let_def js_gt_def)

lemma remaining_eq:
  "remaining (financialMetrics cm txs) = js_sub (Fin 2500) (expenses (financialMetrics cm txs))"
  by (simp add: financialMetrics_def Let_def)





section \<open>Monthly metrics: the formulas\<close>



section \<open>Pie chart data: shape and positivity\<close>

lemma pie_shape:
  "pieChartData m
     = (if js_gt (income m) (Fin 0)
        then [\<lparr> sliceName = ''Income'', sliceValue = income m,
                sliceColor = ''hsl(var(--chart-1))'' \<rparr>] else [])
       @ (if js_gt (expenses m) (Fin 0)
          then [\<lparr> sliceName = ''Expenses'', sliceValue = expenses m,
                  sliceColor = ''hsl(var(--chart-2))'' \<rparr>] else [])
       @ (if js_gt (js_sub (income m) (expenses m)) (Fin 0)
          then [\<lparr> sliceName = ''Savings'', sliceValue = js_sub (income m) (expenses m),
                  sliceColor = ''hsl(var(--primary))'' \<rparr>] else [])"
  by (simp add: pieChartData_def Let_def)

lemma pie_len: "length (pieChartData m) \<le> 3"
  by (simp add: pie_shape)

lemma pie_names:
  "subseq (map sliceName (pieChartData m)) [''Income'', ''Expenses'', ''Savings'']"
  by (simp add: pie_shape)

lemma pie_pos:
  "s \<in> set (pieChartData m) \<Longrightarrow>
   js_gt (sliceValue s) (Fin 0) \<and> \<not> js_lt (sliceValue s) (Fin 0) \<and> \<not> isZero (sliceValue s)"
  by (auto simp: pie_shape dest: js_gt_pos split: if_splits)

lemma pie_none: "pieChartData (financialMetrics cm []) = []"
  by (simp add: pie_shape financialMetrics_def Let_def sumAmounts_def num_defs)

text \<open>
  C6. For every metrics value the pie data has at most three slices, in the order
  Income, Expenses, Savings (savings being income minus expenses), each present exactly
  when its value is greater than 0; so every slice has a value greater than 0 (neither
  negative nor a zero). With no transactions the list is empty.
\<close>

theorem pie_slices:
  "pieChartData m
     = (if js_gt (income m) (Fin 0)
        then [\<lparr> sliceName = ''Income'', sliceValue = income m,
                sliceColor = ''hsl(var(--chart-1))'' \<rparr>] else [])
       @ (if js_gt (expenses m) (Fin 0)
          then [\<lparr> sliceName = ''Expenses'', sliceValue = expenses m,
                  sliceColor = ''hsl(var(--chart-2))'' \<rparr>] else [])
       @ (if js_gt (js_sub (income m) (expenses m)) (Fin 0)
          then [\<lparr> sliceName = ''Savings'', sliceValue = js_sub (income m) (expenses m),
                  sliceColor = ''hsl(var(--primary))'' \<rparr>] else [])
   \<and> length (pieChartData m) \<le> 3
   \<and> subseq (map sliceName (pieChartData m)) [''Income'', ''Expenses'', ''Savings'']
   \<and> (\<forall>s \<in> set (pieChartData m).
         js_gt (sliceValue s) (Fin 0) \<and> \<not> js_lt (sliceValue s) (Fin 0)
         \<and> \<not> isZero (sliceValue s))
   \<and> pieChartData (financialMetrics cm []) = []"
  using pie_shape [of m] pie_len [of m] pie_names [of m] pie_pos [of _ m] pie_none [of cm]
  by blast

text \<open>The example scenario has all three slices; a month with one expense has one.\<close>

theorem pie_slices_witness:
  "map sliceName (pieChartData (financialMetrics ''2024-03'' [march1, march5]))
     = [''Income'', ''Expenses'', ''Savings'']
   \<and> js_gt (sliceValue (last (pieChartData (financialMetrics ''2024-03'' [march1, march5]))))
        (Fin 0)
   \<and> map sliceName (pieChartData (financialMetrics ''2024-03'' [march5])) = [''Expenses'']"
proof -
  have m: "financialMetrics ''2024-03'' [march1, march5]
     = \<lparr> income = Fin 3000, expenses = Fin 800, totalBudget = Fin 2500, usedPercent = Fin 32,
         remaining = Fin 1700, savingsRate = Fin (220 / 3) \<rparr>"
    and m5: "financialMetrics ''2024-03'' [march5]
     = \<lparr> income = Fin 0, expenses = Fin 800, totalBudget = Fin 2500, usedPercent = Fin 32,
         remaining = Fin 1700, savingsRate = Fin 0 \<rparr>"
    by (simp_all add: financialMetrics_def Let_def sumAmounts_def march1_def march5_def parse_defs
        num_defs)
  from pie_slices [of "financialMetrics ''2024-03'' [march1, march5]" "''2024-03''"]
  have shape: "map sliceName (pieChartData (financialMetrics ''2024-03'' [march1, march5]))
     = [''Income'', ''Expenses'', ''Savings'']"
    and ne: "last (pieChartData (financialMetrics ''2024-03'' [march1, march5]))
       \<in> set (pieChartData (financialMetrics ''2024-03'' [march1, march5]))"
    by (simp_all add: m num_defs)
  from pie_slices [of "financialMetrics ''2024-03'' [march1, march5]" "''2024-03''"] ne
  have pos: "js_gt (sliceValue (last (pieChartData (financialMetrics ''2024-03'' [march1, march5]))))
        (Fin 0)"
    by blast
  from pie_slices [of "financialMetrics ''2024-03'' [march5]" "''2024-03''"]
  have only: "map sliceName (pieChartData (financialMetrics ''2024-03'' [march5])) = [''Expenses'']"
    by (simp add: m5 num_defs)
  show ?thesis using shape pos only by blast
qed

section \<open>Recent transactions: bounded, of the month, sorted\<close>

text \<open>
  C8. For every transaction list and month the recent transactions are at most five,
  all of them transactions of the list dated in the month. When the host reads every
  date of the month (no \<open>NaN\<close> time value), they are in descending order of their dates
  and are the first five of the month's transactions sorted by date, descending, with
  transactions of equal date in their order in the input.
\<close>

theorem recent_transactions:
  "length (recentTransactions getTime cm txs) \<le> 5
   \<and> (\<forall>t \<in> set (recentTransactions getTime cm txs). t \<in> set txs \<and> startsWith (date t) cm)
   \<and> ((\<forall>t \<in> set txs. startsWith (date t) cm \<longrightarrow> getTime (date t) \<noteq> NaN) \<longrightarrow>
        sorted_wrt (\<lambda>a b. js_ge (getTime (date a)) (getTime (date b)))
          (recentTransactions getTime cm txs)
        \<and> (\<exists>s. recentTransactions getTime cm txs = take 5 s
              \<and> mset s = mset (filter (\<lambda>t. startsWith (date t) cm) txs)
              \<and> sorted_wrt (\<lambda>a b. js_ge (getTime (date a)) (getTime (date b))) s
              \<and> (\<forall>k. filter (\<lambda>t. getTime (date t) = k) s
                     = filter (\<lambda>t. getTime (date t) = k)
                         (filter (\<lambda>t. startsWith (date t) cm) txs))))"
proof -
  let ?month = "filter (\<lambda>t. startsWith (date t) cm) txs"
  let ?key = "\<lambda>t. getTime (date t)"
  let ?s = "jsSort (descBy ?key) ?month"
  have r: "recentTransactions getTime cm txs = take 5 ?s"
    by (simp add: recentTransactions_def)
  have len: "length (recentTransactions getTime cm txs) \<le> 5"
    by (simp add: r)
  have mem: "\<forall>t \<in> set (recentTransactions getTime cm txs). t \<in> set txs \<and> startsWith (date t) cm"
  proof
    fix t assume "t \<in> set (recentTransactions getTime cm txs)"
    then have "t \<in> set ?s" unfolding r by (rule in_set_takeD)
    then have "t \<in> set ?month" by (simp only: set_jsSort)
    then show "t \<in> set txs \<and> startsWith (date t) cm" by simp
  qed
  have ord: "(\<forall>t \<in> set txs. startsWith (date t) cm \<longrightarrow> getTime (date t) \<noteq> NaN) \<longrightarrow>
        sorted_wrt (\<lambda>a b. js_ge (?key a) (?key b)) (recentTransactions getTime cm txs)
        \<and> (\<exists>s. recentTransactions getTime cm txs = take 5 s
              \<and> mset s = mset ?month
              \<and> sorted_wrt (\<lambda>a b. js_ge (?key a) (?key b)) s
              \<and> (\<forall>k. filter (\<lambda>t. ?key t = k) s = filter (\<lambda>t. ?key t = k) ?month))"
  proof
    assume "\<forall>t \<in> set txs. startsWith (date t) cm \<longrightarrow> getTime (date t) \<noteq> NaN"
    then have "\<forall>t \<in> set ?month. ?key t \<noteq> NaN" by simp
    then have so: "sorted_wrt (\<lambda>a b. js_ge (?key a) (?key b)) ?s"
      by (rule sorted_jsSort_desc)
    have st: "\<forall>k. filter (\<lambda>t. ?key t = k) ?s = filter (\<lambda>t. ?key t = k) ?month"
      by (simp only: filter_jsSort_desc) simp
    have ms: "mset ?s = mset ?month" by (rule mset_jsSort)
    have "sorted_wrt (\<lambda>a b. js_ge (?key a) (?key b)) (take 5 ?s)"
      using so by (rule sorted_wrt_take)
    then show "sorted_wrt (\<lambda>a b. js_ge (?key a) (?key b)) (recentTransactions getTime cm txs)
        \<and> (\<exists>s. recentTransactions getTime cm txs = take 5 s
              \<and> mset s = mset ?month
              \<and> sorted_wrt (\<lambda>a b. js_ge (?key a) (?key b)) s
              \<and> (\<forall>k. filter (\<lambda>t. ?key t = k) s = filter (\<lambda>t. ?key t = k) ?month))"
      using r so st ms by auto
  qed
  show ?thesis using len mem ord by blast
qed

text \<open>Four transactions, one of April and two of the same day.\<close>

theorem recent_transactions_witness:
  "exampleTime ''2024-03-01'' \<noteq> NaN \<and> exampleTime ''2024-03-05'' \<noteq> NaN
   \<and> recentTransactions exampleTime ''2024-03'' [march1, march5, april2, march5b]
       = [march5, march5b, march1]
   \<and> sorted_wrt (\<lambda>a b. js_ge (exampleTime (date a)) (exampleTime (date b)))
        (recentTransactions exampleTime ''2024-03'' [march1, march5, april2, march5b])"
proof -
  have h: "\<forall>t \<in> set [march1, march5, april2, march5b].
             startsWith (date t) ''2024-03'' \<longrightarrow> exampleTime (date t) \<noteq> NaN"
    by (simp add: march1_def march5_def march5b_def april2_def exampleTime_def startsWith_def)
  have t: "exampleTime ''2024-03-01'' \<noteq> NaN \<and> exampleTime ''2024-03-05'' \<noteq> NaN"
    by (simp add: exampleTime_def)
  have v: "recentTransactions exampleTime ''2024-03'' [march1, march5, april2, march5b]
       = [march5, march5b, march1]"
    by (simp add: recentTransactions_def jsSort_def descBy_lt march1_def march5_def march5b_def
        april2_def exampleTime_def startsWith_def)
  have "sorted_wrt (\<lambda>a b. js_ge (exampleTime (date a)) (exampleTime (date b)))
        (recentTransactions exampleTime ''2024-03'' [march1, march5, april2, march5b])"
    using recent_transactions [of exampleTime "''2024-03''" "[march1, march5, april2, march5b]"] h
    by blast
  then show ?thesis using t v by blast
qed

section \<open>The sign of the sums\<close>

text \<open>
  C3, as the code has it. Income and expenses are the sums of the amounts as
  \<^verbatim>\<open>parseFloat\<close> reads them, sign included: the type selects the sum, and no absolute
  value is taken. Each sum is at least 0 whenever every amount that enters it is read as
  a number that is at least 0.
\<close>

theorem nonnegative_sums:
  "((\<forall>t \<in> set txs. startsWith (date t) cm \<and> ttype t = ''income''
        \<longrightarrow> js_ge (parseFloat (amount t)) (Fin 0))
      \<longrightarrow> js_ge (income (financialMetrics cm txs)) (Fin 0))
   \<and> ((\<forall>t \<in> set txs. startsWith (date t) cm \<and> ttype t = ''expense''
        \<longrightarrow> js_ge (parseFloat (amount t)) (Fin 0))
      \<longrightarrow> js_ge (expenses (financialMetrics cm txs)) (Fin 0))"
  by (simp add: income_eq expenses_eq sumAmounts_nonneg)

text \<open>The example scenario: both amounts are read as positive numbers.\<close>

theorem nonnegative_sums_witness:
  "js_ge (parseFloat ''3000'') (Fin 0) \<and> js_ge (parseFloat ''800'') (Fin 0)
   \<and> js_ge (income (financialMetrics ''2024-03'' [march1, march5])) (Fin 0)
   \<and> js_ge (expenses (financialMetrics ''2024-03'' [march1, march5])) (Fin 0)"
proof -
  have p: "js_ge (parseFloat ''3000'') (Fin 0) \<and> js_ge (parseFloat ''800'') (Fin 0)"
    by (simp add: parse_defs js_ge_def)
  then have "\<forall>t \<in> set [march1, march5]. js_ge (parseFloat (amount t)) (Fin 0)"
    by (simp add: march1_def march5_def)
  then show ?thesis
    using nonnegative_sums [of "[march1, march5]" "''2024-03''"] p by simp
qed

text \<open>
  C3 as stated fails: an income transaction whose amount is written \<^verbatim>\<open>-100\<close> gives the
  month an income of \<open>-100\<close>.
\<close>

theorem negative_amount_income:
  "income (financialMetrics ''2024-03'' [march1\<lparr> amount := ''-100'' \<rparr>]) = Fin (- 100)
   \<and> js_lt (income (financialMetrics ''2024-03'' [march1\<lparr> amount := ''-100'' \<rparr>])) (Fin 0)
   \<and> \<not> js_ge (income (financialMetrics ''2024-03'' [march1\<lparr> amount := ''-100'' \<rparr>])) (Fin 0)"
  by (simp add: financialMetrics_def Let_def sumAmounts_def march1_def parse_defs num_defs)

section \<open>Insights: five entries, or the error of the formatter\<close>

lemma first_None: "first xs = None \<longleftrightarrow> xs = []"
  by (cases xs) simp_all

lemma topGoal_None: "topGoal goals = None \<longleftrightarrow> goals = []"
  by (simp add: topGoal_def rankedGoals_def first_None jsSort_Nil)

lemma topGoal_Nil: "topGoal [] = None"
  by (simp add: topGoal_def rankedGoals_def jsSort_def)

lemma categoryBreakdown_no_expense:
  "\<not> (\<exists>t \<in> set txs. ttype t = ''expense'' \<and> startsWith (date t) cm)
   \<Longrightarrow> categoryBreakdown cm txs = []"
proof -
  assume "\<not> (\<exists>t \<in> set txs. ttype t = ''expense'' \<and> startsWith (date t) cm)"
  then have "filter (\<lambda>t. ttype t = ''expense'' \<and> startsWith (date t) cm) txs = []"
    by (simp add: filter_empty_conv)
  then show ?thesis by (simp add: categoryBreakdown_def)
qed

lemma topCategory_no_expense:
  "\<not> (\<exists>t \<in> set txs. ttype t = ''expense'' \<and> startsWith (date t) cm)
   \<Longrightarrow> topCategory cm txs = None"
  by (simp add: topCategory_def sortedBreakdown_def categoryBreakdown_no_expense entries_def
      jsSort_def)

lemma formatCell_ok:
  "wellFormedCurrency (currencyOf u) \<Longrightarrow>
   formatCell u v = Inr (Money (currencyOf u) (orZero (cellNumber v)))"
  by (cases v) (simp_all add: formatCurrency_def)

lemma formatCell_bad:
  "\<not> wellFormedCurrency (currencyOf u) \<Longrightarrow> formatCell u v = Inl RangeError"
  by (cases v) (simp_all add: formatCurrency_def)

lemma spendingMessage_None:
  "topCategory cm txs = None \<Longrightarrow>
   spendingMessage u cm txs = Inr [Lit ''No spending data available yet.'']"
  by (simp add: spendingMessage_def)

lemma spendingMessage_ok:
  "wellFormedCurrency (currencyOf u) \<Longrightarrow> topCategory cm txs = Some (c, v) \<Longrightarrow>
   spendingMessage u cm txs
   = Inr [Lit ''Your top spending is '', Lit c, Lit '': '',
          Money (currencyOf u) (orZero (cellNumber v)), Lit '' this month.'']"
  by (simp add: spendingMessage_def formatCell_ok)

lemma spendingMessage_bad:
  "\<not> wellFormedCurrency (currencyOf u) \<Longrightarrow> topCategory cm txs \<noteq> None \<Longrightarrow>
   spendingMessage u cm txs = Inl RangeError"
  by (auto simp: spendingMessage_def formatCell_bad)

lemma spendingMessage_Inr:
  "wellFormedCurrency (currencyOf u) \<or> topCategory cm txs = None \<Longrightarrow>
   \<exists>sp. spendingMessage u cm txs = Inr sp \<and> sp \<noteq> []
        \<and> (topCategory cm txs = None \<longrightarrow> sp = [Lit ''No spending data available yet.''])"
proof (cases "topCategory cm txs")
  case None
  then show ?thesis by (simp add: spendingMessage_None)
next
  case (Some e)
  assume "wellFormedCurrency (currencyOf u) \<or> topCategory cm txs = None"
  with Some have w: "wellFormedCurrency (currencyOf u)" by simp
  obtain c v where e: "e = (c, v)" by (cases e)
  show ?thesis using spendingMessage_ok [OF w, of cm txs c v] Some e by simp
qed

lemma spendingMessage_Inl:
  "spendingMessage u cm txs = Inl e \<Longrightarrow>
   e = RangeError \<and> \<not> wellFormedCurrency (currencyOf u) \<and> topCategory cm txs \<noteq> None"
proof -
  assume h: "spendingMessage u cm txs = Inl e"
  have "\<not> (wellFormedCurrency (currencyOf u) \<or> topCategory cm txs = None)"
  proof
    assume "wellFormedCurrency (currencyOf u) \<or> topCategory cm txs = None"
    then obtain sp where "spendingMessage u cm txs = Inr sp"
      using spendingMessage_Inr by blast
    with h show False by simp
  qed
  then show ?thesis using h spendingMessage_bad [of u cm txs] by (cases e) auto
qed

lemma insightList_length: "length (insightList sp goals fm) = 5"
  by (simp add: insightList_def)

lemma insightList_types:
  "map itype (insightList sp goals fm)
   = [''savings'', ''spending'', ''goals'', ''habits'', ''budget'']"
  by (simp add: insightList_def)

lemma insightList_message0:
  "message (insightList sp goals fm ! 0)
    = (if js_gt (savingsRate fm) (Fin 0)
           then [Lit (''Excellent! You'' @ apostrophe @ ''re saving ''), Fixed1 (savingsRate fm),
                 Lit ''% of your income this month.'']
           else [Lit ''Start tracking your income to see your savings rate.''])"
  by (simp add: insightList_def)

lemma insightList_message1: "message (insightList sp goals fm ! 1) = sp"
  by (simp add: insightList_def)

lemma insightList_message2:
  "message (insightList sp goals fm ! 2)
    = (case topGoal goals of
             Some g \<Rightarrow>
               [Lit (goalName g), Lit '' is '', Fixed1 (progress g),
                Lit ''% complete - keep it up!'']
           | None \<Rightarrow> [Lit ''Set your first goal to start tracking progress!''])"
  by (simp add: insightList_def)

lemma insightList_message4:
  "message (insightList sp goals fm ! 4)
   = [Lit ''Budget looking good: '', Fixed1 (usedPercent fm), Lit ''% used'']"
  by (simp add: insightList_def)

lemma insightList_nonempty:
  "sp \<noteq> [] \<Longrightarrow> i \<in> set (insightList sp goals fm) \<Longrightarrow> message i \<noteq> []"
  by (auto simp: insightList_def split: option.splits if_splits)

lemma insights_Inr:
  "spendingMessage u cm txs = Inr sp \<Longrightarrow> insights u cm txs goals fm = Inr (insightList sp goals fm)"
  by (simp add: insights_def)

lemma insights_Inl:
  "spendingMessage u cm txs = Inl e \<Longrightarrow> insights u cm txs goals fm = Inl e"
  by (simp add: insights_def)

text \<open>What the five insights are, when the spending message was made.\<close>

lemma five_insights_ok:
  assumes "wellFormedCurrency (currencyOf u) \<or> topCategory cm txs = None"
  shows "\<exists>ins. insights u cm txs goals fm = Inr ins
        \<and> length ins = 5
        \<and> map itype ins = [''savings'', ''spending'', ''goals'', ''habits'', ''budget'']
        \<and> (\<forall>i \<in> set ins. message i \<noteq> [])
        \<and> (\<not> js_gt (savingsRate fm) (Fin 0) \<longrightarrow>
             message (ins ! 0) = [Lit ''Start tracking your income to see your savings rate.''])
        \<and> (topCategory cm txs = None \<longrightarrow>
             message (ins ! 1) = [Lit ''No spending data available yet.''])
        \<and> (goals = [] \<longrightarrow>
             message (ins ! 2) = [Lit ''Set your first goal to start tracking progress!''])"
proof -
  from assms obtain sp where sp: "spendingMessage u cm txs = Inr sp" and ne: "sp \<noteq> []"
    and fb: "topCategory cm txs = None \<longrightarrow> sp = [Lit ''No spending data available yet.'']"
    using spendingMessage_Inr by blast
  let ?ins = "insightList sp goals fm"
  have r: "insights u cm txs goals fm = Inr ?ins" using sp by (rule insights_Inr)
  have l: "length ?ins = 5" by (rule insightList_length)
  have t: "map itype ?ins = [''savings'', ''spending'', ''goals'', ''habits'', ''budget'']"
    by (rule insightList_types)
  have n: "\<forall>i \<in> set ?ins. message i \<noteq> []"
    using insightList_nonempty [OF ne] by blast
  have s: "\<not> js_gt (savingsRate fm) (Fin 0) \<longrightarrow>
             message (?ins ! 0) = [Lit ''Start tracking your income to see your savings rate.'']"
    unfolding insightList_message0 by simp
  have c: "topCategory cm txs = None \<longrightarrow>
             message (?ins ! 1) = [Lit ''No spending data available yet.'']"
    unfolding insightList_message1 using fb by simp
  have g: "goals = [] \<longrightarrow>
             message (?ins ! 2) = [Lit ''Set your first goal to start tracking progress!'']"
    unfolding insightList_message2 by (simp add: topGoal_Nil)
  show ?thesis
    by (rule exI [where x = "insightList sp goals fm"], intro conjI) (rule r l t n s c g)+
qed

lemma topCategory_Nil: "topCategory cm [] = None"
  by (rule topCategory_no_expense) simp

text \<open>
  C5, as the code has it. For every transaction list, goal list, month and metrics
  value, the insights derivation returns exactly five insights, of the types savings,
  spending, goals, habits, budget in this order, each with a message, and with the
  fallback text where the data is missing (no positive savings rate, no top category,
  no goal), whenever the user's currency code is well formed or the month has no top
  category to format. With a code that is not well formed and a top category,
  \<^verbatim>\<open>formatCurrency\<close> throws and the derivation returns nothing. A month without expenses
  has no top category; with no transactions and no goals the five insights are
  returned for every user, and the third message is the "no goals" text.
\<close>

theorem insights_five:
  "(wellFormedCurrency (currencyOf u) \<or> topCategory cm txs = None \<longrightarrow>
      (\<exists>ins. insights u cm txs goals fm = Inr ins
        \<and> length ins = 5
        \<and> map itype ins = [''savings'', ''spending'', ''goals'', ''habits'', ''budget'']
        \<and> (\<forall>i \<in> set ins. message i \<noteq> [])
        \<and> (\<not> js_gt (savingsRate fm) (Fin 0) \<longrightarrow>
             message (ins ! 0) = [Lit ''Start tracking your income to see your savings rate.''])
        \<and> (topCategory cm txs = None \<longrightarrow>
             message (ins ! 1) = [Lit ''No spending data available yet.''])
        \<and> (goals = [] \<longrightarrow>
             message (ins ! 2) = [Lit ''Set your first goal to start tracking progress!''])))
   \<and> (\<not> wellFormedCurrency (currencyOf u) \<and> topCategory cm txs \<noteq> None \<longrightarrow>
        insights u cm txs goals fm = Inl RangeError)
   \<and> (\<not> (\<exists>t \<in> set txs. ttype t = ''expense'' \<and> startsWith (date t) cm) \<longrightarrow>
        topCategory cm txs = None)
   \<and> (\<exists>ins. insights u cm [] [] fm = Inr ins \<and> length ins = 5
          \<and> message (ins ! 2) = [Lit ''Set your first goal to start tracking progress!''])"
proof -
  have a: "wellFormedCurrency (currencyOf u) \<or> topCategory cm txs = None \<longrightarrow>
      (\<exists>ins. insights u cm txs goals fm = Inr ins
        \<and> length ins = 5
        \<and> map itype ins = [''savings'', ''spending'', ''goals'', ''habits'', ''budget'']
        \<and> (\<forall>i \<in> set ins. message i \<noteq> [])
        \<and> (\<not> js_gt (savingsRate fm) (Fin 0) \<longrightarrow>
             message (ins ! 0) = [Lit ''Start tracking your income to see your savings rate.''])
        \<and> (topCategory cm txs = None \<longrightarrow>
             message (ins ! 1) = [Lit ''No spending data available yet.''])
        \<and> (goals = [] \<longrightarrow>
             message (ins ! 2) = [Lit ''Set your first goal to start tracking progress!'']))"
    using five_insights_ok by blast
  have b: "\<not> wellFormedCurrency (currencyOf u) \<and> topCategory cm txs \<noteq> None \<longrightarrow>
        insights u cm txs goals fm = Inl RangeError"
    using spendingMessage_bad [of u cm txs] insights_Inl [of u cm txs RangeError goals fm]
    by blast
  have c: "\<not> (\<exists>t \<in> set txs. ttype t = ''expense'' \<and> startsWith (date t) cm) \<longrightarrow>
        topCategory cm txs = None"
    using topCategory_no_expense by blast
  have d: "\<exists>ins. insights u cm [] [] fm = Inr ins \<and> length ins = 5
          \<and> message (ins ! 2) = [Lit ''Set your first goal to start tracking progress!'']"
    using five_insights_ok [where u = u and cm = cm and txs = "[]" and goals = "[]" and fm = fm]
      topCategory_Nil [of cm]
    by blast
  show ?thesis using a b c d by blast
qed

text \<open>
  The insights of an empty month without goals, for a user without a record; and five
  insights for a user with the currency EUR in a month with an expense.
\<close>

theorem insights_five_witness:
  "topCategory ''2024-03'' [] = None
   \<and> wellFormedCurrency (currencyOf (Some euroUser))
   \<and> (\<exists>ins. insights None ''2024-03'' [] [] (financialMetrics ''2024-03'' []) = Inr ins
         \<and> length ins = 5
         \<and> message (ins ! 0) = [Lit ''Start tracking your income to see your savings rate.'']
         \<and> message (ins ! 1) = [Lit ''No spending data available yet.'']
         \<and> message (ins ! 2) = [Lit ''Set your first goal to start tracking progress!''])
   \<and> (\<exists>ins. insights (Some euroUser) ''2024-03'' [march1, march5] [emergencyFund]
                (financialMetrics ''2024-03'' [march1, march5]) = Inr ins
         \<and> length ins = 5
         \<and> map itype ins = [''savings'', ''spending'', ''goals'', ''habits'', ''budget''])"
proof -
  have n: "topCategory ''2024-03'' [] = None" by (rule topCategory_Nil)
  have w: "wellFormedCurrency (currencyOf (Some euroUser))"
    by (simp add: wellFormedCurrency_def isAsciiLetter_def currencyOf_def euroUser_def)
  have sr: "\<not> js_gt (savingsRate (financialMetrics ''2024-03'' [])) (Fin 0)"
    by (simp add: financialMetrics_def Let_def sumAmounts_def num_defs)
  have e1: "\<exists>ins. insights None ''2024-03'' [] [] (financialMetrics ''2024-03'' []) = Inr ins
         \<and> length ins = 5
         \<and> message (ins ! 0) = [Lit ''Start tracking your income to see your savings rate.'']
         \<and> message (ins ! 1) = [Lit ''No spending data available yet.'']
         \<and> message (ins ! 2) = [Lit ''Set your first goal to start tracking progress!'']"
  proof -
    note t = insights_five [of None "''2024-03''" "[]" "[]" "financialMetrics ''2024-03'' []"]
    from t have "wellFormedCurrency (currencyOf None) \<or> topCategory ''2024-03'' [] = None \<longrightarrow>
      (\<exists>ins. insights None ''2024-03'' [] [] (financialMetrics ''2024-03'' []) = Inr ins
        \<and> length ins = 5
        \<and> map itype ins = [''savings'', ''spending'', ''goals'', ''habits'', ''budget'']
        \<and> (\<forall>i \<in> set ins. message i \<noteq> [])
        \<and> (\<not> js_gt (savingsRate (financialMetrics ''2024-03'' [])) (Fin 0) \<longrightarrow>
             message (ins ! 0) = [Lit ''Start tracking your income to see your savings rate.''])
        \<and> (topCategory ''2024-03'' [] = None \<longrightarrow>
             message (ins ! 1) = [Lit ''No spending data available yet.''])
        \<and> (([] :: goal list) = [] \<longrightarrow>
             message (ins ! 2) = [Lit ''Set your first goal to start tracking progress!'']))"
      by (rule conjunct1)
    with n obtain ins where r: "insights None ''2024-03'' [] [] (financialMetrics ''2024-03'' []) = Inr ins"
      and l: "length ins = 5"
      and m0: "\<not> js_gt (savingsRate (financialMetrics ''2024-03'' [])) (Fin 0) \<longrightarrow>
             message (ins ! 0) = [Lit ''Start tracking your income to see your savings rate.'']"
      and m1: "topCategory ''2024-03'' [] = None \<longrightarrow>
             message (ins ! 1) = [Lit ''No spending data available yet.'']"
      and m2: "([] :: goal list) = [] \<longrightarrow>
             message (ins ! 2) = [Lit ''Set your first goal to start tracking progress!'']"
      by auto
    from m0 sr have a0: "message (ins ! 0)
        = [Lit ''Start tracking your income to see your savings rate.'']" by (rule mp)
    from m1 n have a1: "message (ins ! 1) = [Lit ''No spending data available yet.'']"
      by (rule mp)
    from m2 have a2: "message (ins ! 2) = [Lit ''Set your first goal to start tracking progress!'']"
      by simp
    show ?thesis
      by (rule exI [where x = ins], intro conjI) (rule r l a0 a1 a2)+
  qed
  have e2: "\<exists>ins. insights (Some euroUser) ''2024-03'' [march1, march5] [emergencyFund]
                (financialMetrics ''2024-03'' [march1, march5]) = Inr ins
         \<and> length ins = 5
         \<and> map itype ins = [''savings'', ''spending'', ''goals'', ''habits'', ''budget'']"
  proof -
    note t = insights_five [of "Some euroUser" "''2024-03''" "[march1, march5]" "[emergencyFund]"
        "financialMetrics ''2024-03'' [march1, march5]"]
    from t have "wellFormedCurrency (currencyOf (Some euroUser))
        \<or> topCategory ''2024-03'' [march1, march5] = None \<longrightarrow>
      (\<exists>ins. insights (Some euroUser) ''2024-03'' [march1, march5] [emergencyFund]
                (financialMetrics ''2024-03'' [march1, march5]) = Inr ins
        \<and> length ins = 5
        \<and> map itype ins = [''savings'', ''spending'', ''goals'', ''habits'', ''budget'']
        \<and> (\<forall>i \<in> set ins. message i \<noteq> [])
        \<and> (\<not> js_gt (savingsRate (financialMetrics ''2024-03'' [march1, march5])) (Fin 0) \<longrightarrow>
             message (ins ! 0) = [Lit ''Start tracking your income to see your savings rate.''])
        \<and> (topCategory ''2024-03'' [march1, march5] = None \<longrightarrow>
             message (ins ! 1) = [Lit ''No spending data available yet.''])
        \<and> ([emergencyFund] = [] \<longrightarrow>
             message (ins ! 2) = [Lit ''Set your first goal to start tracking progress!'']))"
      by (rule conjunct1)
    with w obtain ins where r: "insights (Some euroUser) ''2024-03'' [march1, march5]
                [emergencyFund] (financialMetrics ''2024-03'' [march1, march5]) = Inr ins"
      and l: "length ins = 5"
      and ty: "map itype ins = [''savings'', ''spending'', ''goals'', ''habits'', ''budget'']"
      by auto
    show ?thesis
      by (rule exI [where x = ins], intro conjI) (rule r l ty)+
  qed
  show ?thesis
    by (intro conjI) (rule n w e1 e2)+
qed

lemma topCategory_march5: "topCategory ''2024-03'' [march5] = Some (''rent'', Val (Fin 800))"
  by (simp add: topCategory_def sortedBreakdown_def categoryBreakdown_def categoryStep_def
      accumulate_def entries_def isArrayIndex_def protoFunctions_def jsSort_def march5_def
      parse_defs num_defs)

text \<open>
  C5 as stated fails: for a user whose currency code is \<^verbatim>\<open>XX1\<close>, in a month with one
  expense, the derivation returns no insights.
\<close>

theorem insights_malformed_currency:
  "insights (Some badUser) ''2024-03'' [march5] [] (financialMetrics ''2024-03'' [march5])
   = Inl RangeError"
proof -
  have "\<not> wellFormedCurrency (currencyOf (Some badUser))"
    by (simp add: wellFormedCurrency_def isAsciiLetter_def currencyOf_def badUser_def)
  then have "spendingMessage (Some badUser) ''2024-03'' [march5] = Inl RangeError"
    by (rule spendingMessage_bad) (simp add: topCategory_march5)
  then show ?thesis by (rule insights_Inl)
qed

section \<open>Unreadable numbers\<close>

lemma categoryBreakdown_snoc:
  "ttype t = ''expense'' \<Longrightarrow> startsWith (date t) cm \<Longrightarrow>
   categoryBreakdown cm (txs @ [t]) = categoryStep (categoryBreakdown cm txs) t"
  by (simp add: categoryBreakdown_def)

lemma categoryStep_NaN:
  assumes "parseFloat (amount t) = NaN" and "category t \<noteq> ''__proto__''"
  shows "map_option cellNumber (map_of (categoryStep acc t) (category t)) = Some NaN"
proof (cases "map_of acc (category t)")
  case None
  then show ?thesis
    using assms by (simp add: categoryStep_def accumulate_def update_conv')
next
  case (Some c)
  then show ?thesis
    using assms
    by (cases c) (simp_all add: categoryStep_def accumulate_def update_conv' js_add_NaN_right)
qed

lemma progress_NaN:
  "parseFloat (current g) = NaN \<or> parseFloat (target g) = NaN \<Longrightarrow>
   progress (goalProgressOf g) = NaN"
  by (auto simp: goalProgressOf_def js_div_def js_mul_def)

lemma insights_wellFormed:
  "wellFormedCurrency (currencyOf u) \<Longrightarrow>
   \<exists>ins. insights u cm txs goals fm = Inr ins \<and> length ins = 5"
proof -
  assume "wellFormedCurrency (currencyOf u)"
  then obtain sp where "spendingMessage u cm txs = Inr sp"
    using spendingMessage_Inr by blast
  then have "insights u cm txs goals fm = Inr (insightList sp goals fm)"
    by (rule insights_Inr)
  then show ?thesis by (simp add: insightList_length)
qed

lemma insights_error:
  "insights u cm txs goals fm = Inl e \<Longrightarrow> e = RangeError \<and> \<not> wellFormedCurrency (currencyOf u)"
proof -
  assume h: "insights u cm txs goals fm = Inl e"
  have "spendingMessage u cm txs = Inl e"
  proof (cases "spendingMessage u cm txs")
    case (Inl a)
    with h show ?thesis by (simp add: insights_def)
  next
    case (Inr b)
    with h show ?thesis by (simp add: insights_def)
  qed
  then show ?thesis using spendingMessage_Inl by blast
qed

text \<open>
  C1, as the code has it. A numeric string that \<^verbatim>\<open>parseFloat\<close> cannot read is \<open>NaN\<close>, not
  \<open>0\<close>, in every derivation, and \<open>NaN\<close> is what the derivation returns: the month's income
  when an income amount is unreadable; the month's expenses, and with them the used
  percentage and the remainder, when an expense amount is; the number that the total of
  a category stands for, right after an unreadable amount was added to it, for every
  category but \<^verbatim>\<open>__proto__\<close> (which gets no entry); the progress of a goal when its
  current or its target value is unreadable. An unreadable string never makes the
  insights derivation fail: for every transaction list and goal list it returns its five
  insights when the user's currency code is well formed, and the only error it can end
  with is the \<^verbatim>\<open>RangeError\<close> of \<^verbatim>\<open>formatCurrency\<close> for a code that is not.
\<close>

theorem unparsable_is_NaN:
  "((\<exists>t \<in> set txs. startsWith (date t) cm \<and> ttype t = ''income''
        \<and> parseFloat (amount t) = NaN)
      \<longrightarrow> income (financialMetrics cm txs) = NaN)
   \<and> ((\<exists>t \<in> set txs. startsWith (date t) cm \<and> ttype t = ''expense''
        \<and> parseFloat (amount t) = NaN)
      \<longrightarrow> expenses (financialMetrics cm txs) = NaN
          \<and> usedPercent (financialMetrics cm txs) = NaN
          \<and> remaining (financialMetrics cm txs) = NaN)
   \<and> (ttype t = ''expense'' \<and> startsWith (date t) cm \<and> parseFloat (amount t) = NaN
       \<and> category t \<noteq> ''__proto__''
      \<longrightarrow> map_option cellNumber (map_of (categoryBreakdown cm (txs @ [t])) (category t))
          = Some NaN)
   \<and> (parseFloat (current g) = NaN \<or> parseFloat (target g) = NaN
      \<longrightarrow> progress (goalProgressOf g) = NaN)
   \<and> (wellFormedCurrency (currencyOf u)
      \<longrightarrow> (\<exists>ins. insights u cm txs goals (financialMetrics cm txs) = Inr ins
                \<and> length ins = 5))
   \<and> (\<forall>e. insights u cm txs goals (financialMetrics cm txs) = Inl e
          \<longrightarrow> e = RangeError \<and> \<not> wellFormedCurrency (currencyOf u))"
proof -
  have i: "(\<exists>t \<in> set txs. startsWith (date t) cm \<and> ttype t = ''income''
        \<and> parseFloat (amount t) = NaN)
      \<longrightarrow> income (financialMetrics cm txs) = NaN"
    unfolding income_eq by (auto intro!: sumAmounts_has_NaN)
  have e: "(\<exists>t \<in> set txs. startsWith (date t) cm \<and> ttype t = ''expense''
        \<and> parseFloat (amount t) = NaN)
      \<longrightarrow> expenses (financialMetrics cm txs) = NaN"
    unfolding expenses_eq by (auto intro!: sumAmounts_has_NaN)
  have x: "expenses (financialMetrics cm txs) = NaN \<longrightarrow>
           usedPercent (financialMetrics cm txs) = NaN \<and> remaining (financialMetrics cm txs) = NaN"
    by (simp add: usedPercent_eq remaining_eq js_div_def js_mul_def js_sub_def)
  have c: "ttype t = ''expense'' \<and> startsWith (date t) cm \<and> parseFloat (amount t) = NaN
       \<and> category t \<noteq> ''__proto__''
      \<longrightarrow> map_option cellNumber (map_of (categoryBreakdown cm (txs @ [t])) (category t))
          = Some NaN"
    using categoryStep_NaN [of t "categoryBreakdown cm txs"]
    by (simp add: categoryBreakdown_snoc)
  have p: "parseFloat (current g) = NaN \<or> parseFloat (target g) = NaN
      \<longrightarrow> progress (goalProgressOf g) = NaN"
    using progress_NaN by blast
  have w: "wellFormedCurrency (currencyOf u)
      \<longrightarrow> (\<exists>ins. insights u cm txs goals (financialMetrics cm txs) = Inr ins
                \<and> length ins = 5)"
    using insights_wellFormed by blast
  have r: "\<forall>e. insights u cm txs goals (financialMetrics cm txs) = Inl e
          \<longrightarrow> e = RangeError \<and> \<not> wellFormedCurrency (currencyOf u)"
    using insights_error by blast
  show ?thesis using i e x c p w r by blast
qed

text \<open>
  One unreadable string in each of the four places, and the five insights of these
  transactions and this goal for a user without a record.
\<close>

theorem unparsable_is_NaN_witness:
  "parseFloat ''abc'' = NaN
   \<and> wellFormedCurrency (currencyOf None)
   \<and> income (financialMetrics ''2024-03'' [march1\<lparr> amount := ''abc'' \<rparr>, march5]) = NaN
   \<and> expenses (financialMetrics ''2024-03'' [march1, march5\<lparr> amount := ''abc'' \<rparr>]) = NaN
   \<and> usedPercent (financialMetrics ''2024-03'' [march1, march5\<lparr> amount := ''abc'' \<rparr>]) = NaN
   \<and> map_option cellNumber
        (map_of (categoryBreakdown ''2024-03'' ([march5] @ [march5\<lparr> amount := ''abc'' \<rparr>]))
           ''rent'') = Some NaN
   \<and> progress (goalProgressOf (tripGoal\<lparr> target := ''abc'' \<rparr>)) = NaN
   \<and> (\<exists>ins. insights None ''2024-03'' [march1, march5\<lparr> amount := ''abc'' \<rparr>]
                [tripGoal\<lparr> target := ''abc'' \<rparr>]
                (financialMetrics ''2024-03'' [march1, march5\<lparr> amount := ''abc'' \<rparr>]) = Inr ins
         \<and> length ins = 5)"
proof -
  have p: "parseFloat ''abc'' = NaN"
    by (simp add: parse_defs)
  have w: "wellFormedCurrency (currencyOf None)"
    by (simp add: wellFormedCurrency_def isAsciiLetter_def currencyOf_def)
  have a: "\<exists>t \<in> set [march1\<lparr> amount := ''abc'' \<rparr>, march5].
             startsWith (date t) ''2024-03'' \<and> ttype t = ''income'' \<and> parseFloat (amount t) = NaN"
    using p by (simp add: march1_def startsWith_def)
  have b: "\<exists>t \<in> set [march1, march5\<lparr> amount := ''abc'' \<rparr>].
             startsWith (date t) ''2024-03'' \<and> ttype t = ''expense'' \<and> parseFloat (amount t) = NaN"
    using p by (simp add: march5_def startsWith_def)
  have c: "ttype (march5\<lparr> amount := ''abc'' \<rparr>) = ''expense''
           \<and> startsWith (date (march5\<lparr> amount := ''abc'' \<rparr>)) ''2024-03''
           \<and> parseFloat (amount (march5\<lparr> amount := ''abc'' \<rparr>)) = NaN
           \<and> category (march5\<lparr> amount := ''abc'' \<rparr>) \<noteq> ''__proto__''"
    using p by (simp add: march5_def startsWith_def)
  have k: "category (march5\<lparr> amount := ''abc'' \<rparr>) = ''rent''"
    by (simp add: march5_def)
  have g: "parseFloat (current (tripGoal\<lparr> target := ''abc'' \<rparr>)) = NaN
           \<or> parseFloat (target (tripGoal\<lparr> target := ''abc'' \<rparr>)) = NaN"
    using p by simp
  have r1: "income (financialMetrics ''2024-03'' [march1\<lparr> amount := ''abc'' \<rparr>, march5]) = NaN"
    using unparsable_is_NaN [where txs = "[march1\<lparr> amount := ''abc'' \<rparr>, march5]"
        and cm = "''2024-03''"] a by blast
  have r2: "expenses (financialMetrics ''2024-03'' [march1, march5\<lparr> amount := ''abc'' \<rparr>]) = NaN
    \<and> usedPercent (financialMetrics ''2024-03'' [march1, march5\<lparr> amount := ''abc'' \<rparr>]) = NaN"
    using unparsable_is_NaN [where txs = "[march1, march5\<lparr> amount := ''abc'' \<rparr>]"
        and cm = "''2024-03''"] b by blast
  have r3: "map_option cellNumber
              (map_of (categoryBreakdown ''2024-03'' ([march5] @ [march5\<lparr> amount := ''abc'' \<rparr>]))
                 (category (march5\<lparr> amount := ''abc'' \<rparr>))) = Some NaN"
    using unparsable_is_NaN [where txs = "[march5]" and cm = "''2024-03''"
        and t = "march5\<lparr> amount := ''abc'' \<rparr>"] c by blast
  have r4: "progress (goalProgressOf (tripGoal\<lparr> target := ''abc'' \<rparr>)) = NaN"
    using unparsable_is_NaN [where g = "tripGoal\<lparr> target := ''abc'' \<rparr>"] g by blast
  have r5: "\<exists>ins. insights None ''2024-03'' [march1, march5\<lparr> amount := ''abc'' \<rparr>]
                [tripGoal\<lparr> target := ''abc'' \<rparr>]
                (financialMetrics ''2024-03'' [march1, march5\<lparr> amount := ''abc'' \<rparr>]) = Inr ins
         \<and> length ins = 5"
  proof -
    from unparsable_is_NaN [where txs = "[march1, march5\<lparr> amount := ''abc'' \<rparr>]"
        and cm = "''2024-03''" and u = None and goals = "[tripGoal\<lparr> target := ''abc'' \<rparr>]"]
    have "wellFormedCurrency (currencyOf None)
      \<longrightarrow> (\<exists>ins. insights None ''2024-03'' [march1, march5\<lparr> amount := ''abc'' \<rparr>]
                [tripGoal\<lparr> target := ''abc'' \<rparr>]
                (financialMetrics ''2024-03'' [march1, march5\<lparr> amount := ''abc'' \<rparr>]) = Inr ins
                \<and> length ins = 5)"
      by blast
    then show ?thesis using w by (rule mp)
  qed
  show ?thesis
    by (intro conjI) (rule p w r1 r2 [THEN conjunct1] r2 [THEN conjunct2] r3 [unfolded k] r4 r5)+
qed

text \<open>
  C1 as stated fails. With the amount \<^verbatim>\<open>abc\<close> the income is \<open>NaN\<close>, where the amount
  \<^verbatim>\<open>0\<close> gives 3000, and the budget insight then shows the used percentage \<open>NaN\<close>. And
  a derivation can end with an error: for a user whose currency code is \<^verbatim>\<open>US\<close>, the
  insights of a month with an expense are not returned.
\<close>

theorem unparsable_amount_not_zero:
  "income (financialMetrics ''2024-03'' [march1, march1\<lparr> amount := ''abc'' \<rparr>]) = NaN
   \<and> income (financialMetrics ''2024-03'' [march1, march1\<lparr> amount := ''0'' \<rparr>]) = Fin 3000
   \<and> map_sum id (\<lambda>ins. message (ins ! 4))
        (insights None ''2024-03'' [march5\<lparr> amount := ''abc'' \<rparr>] []
           (financialMetrics ''2024-03'' [march5\<lparr> amount := ''abc'' \<rparr>]))
       = Inr [Lit ''Budget looking good: '', Fixed1 NaN, Lit ''% used'']
   \<and> insights (Some shortUser) ''2024-03'' [march5] [] (financialMetrics ''2024-03'' [march5])
       = Inl RangeError"
proof -
  have a: "income (financialMetrics ''2024-03'' [march1, march1\<lparr> amount := ''abc'' \<rparr>]) = NaN"
    and b: "income (financialMetrics ''2024-03'' [march1, march1\<lparr> amount := ''0'' \<rparr>]) = Fin 3000"
    and u: "usedPercent (financialMetrics ''2024-03'' [march5\<lparr> amount := ''abc'' \<rparr>]) = NaN"
    by (simp_all add: financialMetrics_def Let_def sumAmounts_def march1_def march5_def
        parse_defs num_defs)
  have "wellFormedCurrency (currencyOf None)"
    by (simp add: wellFormedCurrency_def isAsciiLetter_def currencyOf_def)
  then obtain sp where "spendingMessage None ''2024-03'' [march5\<lparr> amount := ''abc'' \<rparr>] = Inr sp"
    using spendingMessage_Inr by blast
  then have "insights None ''2024-03'' [march5\<lparr> amount := ''abc'' \<rparr>] []
           (financialMetrics ''2024-03'' [march5\<lparr> amount := ''abc'' \<rparr>])
        = Inr (insightList sp [] (financialMetrics ''2024-03'' [march5\<lparr> amount := ''abc'' \<rparr>]))"
    by (rule insights_Inr)
  then have c: "map_sum id (\<lambda>ins. message (ins ! 4))
        (insights None ''2024-03'' [march5\<lparr> amount := ''abc'' \<rparr>] []
           (financialMetrics ''2024-03'' [march5\<lparr> amount := ''abc'' \<rparr>]))
       = Inr [Lit ''Budget looking good: '', Fixed1 NaN, Lit ''% used'']"
    by (simp only: map_sum.simps insightList_message4 u)
  have "\<not> wellFormedCurrency (currencyOf (Some shortUser))"
    by (simp add: wellFormedCurrency_def currencyOf_def shortUser_def)
  then have "spendingMessage (Some shortUser) ''2024-03'' [march5] = Inl RangeError"
    by (rule spendingMessage_bad) (simp add: topCategory_march5)
  then have d: "insights (Some shortUser) ''2024-03'' [march5] []
                  (financialMetrics ''2024-03'' [march5]) = Inl RangeError"
    by (rule insights_Inl)
  show ?thesis
    by (intro conjI) (rule a b c d)+
qed

section \<open>Division by a zero target\<close>

text \<open>
  C2 at a goal whose target is \<^verbatim>\<open>0\<close>: the progress is \<open>500 / 0 * 100\<close>, an infinity,
  and the goal insight shows it; with the current value \<^verbatim>\<open>0\<close> as well it is \<open>NaN\<close>.
  Nothing guards this division, unlike the two of the metrics.
\<close>

theorem zero_target_progress:
  "topGoal [tripGoal] = Some \<lparr> goalName = ''Trip'', progress = PInf \<rparr>
   \<and> map_sum id (\<lambda>ins. message (ins ! 2))
        (insights None ''2024-03'' [] [tripGoal] (financialMetrics ''2024-03'' []))
       = Inr [Lit ''Trip'', Lit '' is '', Fixed1 PInf, Lit ''% complete - keep it up!'']
   \<and> topGoal [tripGoal\<lparr> current := ''0'' \<rparr>] = Some \<lparr> goalName = ''Trip'', progress = NaN \<rparr>"
proof -
  have a: "topGoal [tripGoal] = Some \<lparr> goalName = ''Trip'', progress = PInf \<rparr>"
    and c: "topGoal [tripGoal\<lparr> current := ''0'' \<rparr>] = Some \<lparr> goalName = ''Trip'', progress = NaN \<rparr>"
    by (simp_all add: topGoal_def rankedGoals_def jsSort_def goalProgressOf_def tripGoal_def
        parse_defs num_defs)
  have "insights None ''2024-03'' [] [tripGoal] (financialMetrics ''2024-03'' [])
        = Inr (insightList [Lit ''No spending data available yet.''] [tripGoal]
                 (financialMetrics ''2024-03'' []))"
    by (rule insights_Inr) (simp add: spendingMessage_None topCategory_Nil)
  then have b: "map_sum id (\<lambda>ins. message (ins ! 2))
        (insights None ''2024-03'' [] [tripGoal] (financialMetrics ''2024-03'' []))
       = Inr [Lit ''Trip'', Lit '' is '', Fixed1 PInf, Lit ''% complete - keep it up!'']"
    by (simp only: map_sum.simps insightList_message2 a) simp
  show ?thesis
    by (intro conjI) (rule a b c)+
qed

section \<open>The two category breakdowns\<close>

lemma wellFormed_None: "wellFormedCurrency (currencyOf None)"
  by (simp add: wellFormedCurrency_def isAsciiLetter_def currencyOf_def)

text \<open>
  C7 at two expenses of 800 and 50 in one category: the insights derivation totals 850,
  the screen holds the text \<^verbatim>\<open>080050\<close>, which it ranks and shows as 80050.
\<close>

theorem breakdown_paths_disagree:
  "sortedBreakdown ''2024-03'' [march5, march5\<lparr> amount := ''50'' \<rparr>] = [(''rent'', Val (Fin 850))]
   \<and> map_sum id (map (\<lambda>r. (rowCategory r, rowAmount r, rowShown r)))
        (screenBreakdown None ''2024-03'' [march5, march5\<lparr> amount := ''50'' \<rparr>])
       = Inr [(''rent'', Val ''080050'', Money ''USD'' (Fin 80050))]
   \<and> textNumber (Val ''080050'') = Fin 80050"
proof -
  have a: "sortedBreakdown ''2024-03'' [march5, march5\<lparr> amount := ''50'' \<rparr>]
           = [(''rent'', Val (Fin 850))]"
    by (simp add: sortedBreakdown_def categoryBreakdown_def categoryStep_def accumulate_def
        entries_def isArrayIndex_def protoFunctions_def jsSort_def march5_def parse_defs num_defs)
  have e: "screenEntries ''2024-03'' [march5, march5\<lparr> amount := ''50'' \<rparr>]
           = [(''rent'', Val ''080050'')]"
    by (simp add: screenEntries_def screenStep_def accumulate_def entries_def isArrayIndex_def
        protoFunctions_def jsSort_def march5_def startsWith_def isDigit_def)
  have p: "parseFloat ''080050'' = Fin 80050"
    by (simp add: parse_defs)
  have b: "map_sum id (map (\<lambda>r. (rowCategory r, rowAmount r, rowShown r)))
        (screenBreakdown None ''2024-03'' [march5, march5\<lparr> amount := ''50'' \<rparr>])
       = Inr [(''rent'', Val ''080050'', Money ''USD'' (Fin 80050))]"
    unfolding screenBreakdown_def e
    by (simp add: screenRow_def Let_def formatCurrency_def wellFormed_None p orZero_def truthy_def)
       (simp add: currencyOf_def)
  have c: "textNumber (Val ''080050'') = Fin 80050"
    by (simp add: toNumber_def trimWhite_def parse_defs)
  show ?thesis
    by (intro conjI) (rule a b c)+
qed

section \<open>The size of the screen's breakdown\<close>

lemma keys_accumulate:
  "map fst (accumulate grow z k acc)
   = (if k = ''__proto__'' \<or> k \<in> set (map fst acc) then map fst acc else map fst acc @ [k])"
proof (cases "map_of acc k")
  case None
  then have "k \<notin> set (map fst acc)" by (simp add: map_of_eq_None_iff)
  with None show ?thesis by (simp add: accumulate_def update_keys)
next
  case (Some c)
  then have "(k, c) \<in> set acc" by (rule map_of_SomeD)
  then have "k \<in> set (map fst acc)" by force
  with Some show ?thesis by (cases c) (simp_all add: accumulate_def update_keys)
qed

lemma keys_foldl_screenStep:
  "distinct (map fst acc) \<Longrightarrow>
   distinct (map fst (foldl screenStep acc ts))
   \<and> set (map fst (foldl screenStep acc ts))
       = set (map fst acc) \<union> (category ` set ts - {''__proto__''})"
proof (induction ts arbitrary: acc)
  case Nil
  then show ?case by simp
next
  case (Cons t ts)
  have d: "distinct (map fst (screenStep acc t))"
    using Cons.prems by (simp add: screenStep_def keys_accumulate)
  have s: "set (map fst (screenStep acc t))
           = set (map fst acc) \<union> ({category t} - {''__proto__''})"
    by (auto simp: screenStep_def keys_accumulate)
  from Cons.IH [OF d] s show ?case by auto
qed

lemma length_entries: "length (entries obj) = length obj"
  by (simp add: entries_def sum_length_filter_compl)

lemma length_screenEntries:
  "length (screenEntries cm txs)
   = min 4 (length (foldl screenStep []
                      (filter (\<lambda>t. ttype t = ''expense'' \<and> startsWith (date t) cm) txs)))"
  by (simp add: screenEntries_def length_jsSort length_entries min.commute)

lemma card_screenEntries:
  "length (screenEntries cm txs)
     = min 4 (card (category ` {t \<in> set txs. ttype t = ''expense'' \<and> startsWith (date t) cm}
                    - {''__proto__''}))"
proof -
  let ?ts = "filter (\<lambda>t. ttype t = ''expense'' \<and> startsWith (date t) cm) txs"
  let ?acc = "foldl screenStep [] ?ts"
  have k: "distinct (map fst ?acc)
           \<and> set (map fst ?acc) = set (map fst ([] :: (string \<times> string cell) list))
                \<union> (category ` set ?ts - {''__proto__''})"
    by (rule keys_foldl_screenStep) simp
  from k have d: "distinct (map fst ?acc)" by (rule conjunct1)
  from k have e: "set (map fst ?acc) = category ` set ?ts - {''__proto__''}" by simp
  have "length ?acc = length (map fst ?acc)" by simp
  also have "\<dots> = card (set (map fst ?acc))" using d by (rule distinct_card [symmetric])
  also have "\<dots> = card (category ` set ?ts - {''__proto__''})" by (simp only: e)
  finally have "length ?acc = card (category ` set ?ts - {''__proto__''})" .
  moreover have "set ?ts = {t \<in> set txs. ttype t = ''expense'' \<and> startsWith (date t) cm}"
    by auto
  ultimately show ?thesis by (simp add: length_screenEntries)
qed

lemma screenRow_ok:
  "wellFormedCurrency (currencyOf u) \<Longrightarrow>
   \<exists>r. screenRow u cm txs e = Inr r \<and> rowCategory r = fst e"
  by (simp add: screenRow_def formatCurrency_def Let_def)

lemma screenRow_bad:
  "\<not> wellFormedCurrency (currencyOf u) \<Longrightarrow> screenRow u cm txs e = Inl RangeError"
  by (simp add: screenRow_def formatCurrency_def Let_def)

lemma screenRow_category:
  "screenRow u cm txs e = Inr r \<Longrightarrow> rowCategory r = fst e"
  by (auto simp: screenRow_def Let_def split: sum.splits)

lemma mapE_Inr:
  "mapE f xs = Inr ys \<Longrightarrow> length ys = length xs \<and> (\<forall>i < length xs. f (xs ! i) = Inr (ys ! i))"
proof (induction xs arbitrary: ys)
  case Nil
  then show ?case by simp
next
  case (Cons x xs)
  from Cons.prems obtain y zs where y: "f x = Inr y" and zs: "mapE f xs = Inr zs"
    and ys: "ys = y # zs"
    by (auto split: sum.splits)
  from Cons.IH [OF zs] have l: "length zs = length xs"
    and n: "\<forall>i < length xs. f (xs ! i) = Inr (zs ! i)" by simp_all
  show ?case
  proof (intro conjI allI impI)
    show "length ys = length (x # xs)" using l ys by simp
  next
    fix i assume "i < length (x # xs)"
    then show "f ((x # xs) ! i) = Inr (ys ! i)"
      using y n ys by (cases i) simp_all
  qed
qed

lemma mapE_ok: "(\<And>x. \<exists>y. f x = Inr y) \<Longrightarrow> \<exists>ys. mapE f xs = Inr ys"
proof (induction xs)
  case Nil
  then show ?case by simp
next
  case (Cons x xs)
  from Cons.prems obtain y where "f x = Inr y" by blast
  moreover from Cons obtain ys where "mapE f xs = Inr ys" by blast
  ultimately show ?case by simp
qed

lemma mapE_bad: "(\<And>x. f x = Inl e) \<Longrightarrow> xs \<noteq> [] \<Longrightarrow> mapE f xs = Inl e"
  by (cases xs) simp_all

lemma screenBreakdown_rows:
  assumes "screenBreakdown u cm txs = Inr rows"
  shows "length rows = length (screenEntries cm txs)"
    and "map rowCategory rows = map fst (screenEntries cm txs)"
proof -
  from assms have m: "mapE (screenRow u cm txs) (screenEntries cm txs) = Inr rows"
    by (simp add: screenBreakdown_def)
  from mapE_Inr [OF m] have l: "length rows = length (screenEntries cm txs)"
    and n: "\<forall>i < length (screenEntries cm txs).
              screenRow u cm txs (screenEntries cm txs ! i) = Inr (rows ! i)"
    by simp_all
  show "length rows = length (screenEntries cm txs)" by (rule l)
  show "map rowCategory rows = map fst (screenEntries cm txs)"
  proof (rule nth_equalityI)
    show "length (map rowCategory rows) = length (map fst (screenEntries cm txs))"
      using l by simp
  next
    fix i assume "i < length (map rowCategory rows)"
    then have i: "i < length (screenEntries cm txs)" using l by simp
    with n have "screenRow u cm txs (screenEntries cm txs ! i) = Inr (rows ! i)" by blast
    then have "rowCategory (rows ! i) = fst (screenEntries cm txs ! i)"
      by (rule screenRow_category)
    then show "map rowCategory rows ! i = map fst (screenEntries cm txs) ! i"
      using i l by simp
  qed
qed

lemma screenBreakdown_ok:
  "wellFormedCurrency (currencyOf u) \<Longrightarrow> \<exists>rows. screenBreakdown u cm txs = Inr rows"
  unfolding screenBreakdown_def
  by (rule mapE_ok) (use screenRow_ok in blast)

lemma screenBreakdown_bad:
  "\<not> wellFormedCurrency (currencyOf u) \<Longrightarrow> screenEntries cm txs \<noteq> [] \<Longrightarrow>
   screenBreakdown u cm txs = Inl RangeError"
  unfolding screenBreakdown_def
  by (rule mapE_bad) (simp_all add: screenRow_bad)

text \<open>
  C10, as the code has it. For every transaction list the breakdown of the Insights
  screen has at most four entries: their number is the smaller of 4 and the number of
  distinct categories, other than \<^verbatim>\<open>__proto__\<close>, among the expenses of the month. The
  rows rendered are these entries, one row each and in their order; they are rendered
  whenever the user's currency code is well formed, and with a code that is not, and at
  least one entry, the rendering ends with the \<^verbatim>\<open>RangeError\<close> of \<^verbatim>\<open>formatCurrency\<close>.
\<close>

theorem screen_breakdown_size:
  "length (screenEntries cm txs)
     = min 4 (card (category ` {t \<in> set txs. ttype t = ''expense'' \<and> startsWith (date t) cm}
                    - {''__proto__''}))
   \<and> length (screenEntries cm txs) \<le> 4
   \<and> (\<forall>rows. screenBreakdown u cm txs = Inr rows \<longrightarrow>
         length rows
           = min 4 (card (category ` {t \<in> set txs. ttype t = ''expense''
                                       \<and> startsWith (date t) cm} - {''__proto__''}))
         \<and> length rows \<le> 4
         \<and> map rowCategory rows = map fst (screenEntries cm txs))
   \<and> (wellFormedCurrency (currencyOf u) \<longrightarrow> (\<exists>rows. screenBreakdown u cm txs = Inr rows))
   \<and> (\<not> wellFormedCurrency (currencyOf u) \<and> screenEntries cm txs \<noteq> []
        \<longrightarrow> screenBreakdown u cm txs = Inl RangeError)"
proof -
  let ?n = "min 4 (card (category ` {t \<in> set txs. ttype t = ''expense'' \<and> startsWith (date t) cm}
                    - {''__proto__''}))"
  have a: "length (screenEntries cm txs) = ?n" by (rule card_screenEntries)
  have b: "length (screenEntries cm txs) \<le> 4" by (simp add: a)
  have c: "\<forall>rows. screenBreakdown u cm txs = Inr rows \<longrightarrow>
         length rows = ?n \<and> length rows \<le> 4
         \<and> map rowCategory rows = map fst (screenEntries cm txs)"
  proof (intro allI impI)
    fix rows assume r: "screenBreakdown u cm txs = Inr rows"
    have l: "length rows = length (screenEntries cm txs)"
      using r by (rule screenBreakdown_rows)
    have m: "map rowCategory rows = map fst (screenEntries cm txs)"
      using r by (rule screenBreakdown_rows)
    show "length rows = ?n \<and> length rows \<le> 4
         \<and> map rowCategory rows = map fst (screenEntries cm txs)"
      using l m a b by simp
  qed
  have d: "wellFormedCurrency (currencyOf u) \<longrightarrow> (\<exists>rows. screenBreakdown u cm txs = Inr rows)"
    using screenBreakdown_ok by blast
  have e: "\<not> wellFormedCurrency (currencyOf u) \<and> screenEntries cm txs \<noteq> []
        \<longrightarrow> screenBreakdown u cm txs = Inl RangeError"
    using screenBreakdown_bad by blast
  show ?thesis
    by (intro conjI) (rule a b c d e)+
qed

text \<open>The five expenses, step by step.\<close>

lemma fiveExpenses_accumulated: "foldl screenStep []
        (filter (\<lambda>t. ttype t = ''expense'' \<and> startsWith (date t) ''2024-03'') fiveExpenses)
      = [(''food'', Val ''030''), (''rent'', Val ''0800''), (''fun'', Val ''020''),
         (''bus'', Val ''010''), (''gym'', Val ''025'')]"
  by (simp add: fiveExpenses_def march5_def screenStep_def accumulate_def protoFunctions_def
      startsWith_def)

lemma fiveExpenses_entries: "entries [(''food'', Val ''030''), (''rent'', Val ''0800''), (''fun'', Val ''020''),
         (''bus'', Val ''010''), (''gym'', Val ''025'')]
   = [(''food'', Val ''030''), (''rent'', Val ''0800''), (''fun'', Val ''020''),
         (''bus'', Val ''010''), (''gym'', Val ''025'')]"
  by (simp add: entries_def isArrayIndex_def isDigit_def)

lemma fiveExpenses_numbers: "toNumber ''030'' = Fin 30" "toNumber ''0800'' = Fin 800" "toNumber ''020'' = Fin 20"
  "toNumber ''010'' = Fin 10" "toNumber ''025'' = Fin 25"
  by (simp_all add: toNumber_def trimWhite_def parse_defs)

lemma fiveExpenses_sorted: "screenEntries ''2024-03'' fiveExpenses
   = [(''rent'', Val ''0800''), (''food'', Val ''030''), (''gym'', Val ''025''), (''fun'', Val ''020'')]"
  unfolding screenEntries_def fiveExpenses_accumulated fiveExpenses_entries
  by (simp add: jsSort_def descBy_lt fiveExpenses_numbers)

text \<open>
  Five categories: four rows for a user without a record, and none for a user whose
  currency code is \<^verbatim>\<open>XX1\<close>.
\<close>

theorem screen_breakdown_size_witness:
  "wellFormedCurrency (currencyOf None)
   \<and> (\<exists>rows. screenBreakdown None ''2024-03'' fiveExpenses = Inr rows
         \<and> length rows = 4
         \<and> map rowCategory rows = [''rent'', ''food'', ''gym'', ''fun''])
   \<and> min 4 (card (category ` {t \<in> set fiveExpenses. ttype t = ''expense''
                                   \<and> startsWith (date t) ''2024-03''} - {''__proto__''})) = 4
   \<and> screenBreakdown (Some badUser) ''2024-03'' fiveExpenses = Inl RangeError"
proof -
  note t = screen_breakdown_size [where cm = "''2024-03''" and txs = fiveExpenses]
  have s: "screenEntries ''2024-03'' fiveExpenses
   = [(''rent'', Val ''0800''), (''food'', Val ''030''), (''gym'', Val ''025''), (''fun'', Val ''020'')]"
    by (rule fiveExpenses_sorted)
  have l: "length (screenEntries ''2024-03'' fiveExpenses) = 4"
    by (simp only: s) simp
  have f: "map fst (screenEntries ''2024-03'' fiveExpenses) = [''rent'', ''food'', ''gym'', ''fun'']"
    by (simp only: s) simp
  have ne: "screenEntries ''2024-03'' fiveExpenses \<noteq> []"
    by (simp only: s) simp
  have w: "wellFormedCurrency (currencyOf None)" by (rule wellFormed_None)
  have nw: "\<not> wellFormedCurrency (currencyOf (Some badUser))"
    by (simp add: wellFormedCurrency_def currencyOf_def badUser_def isAsciiLetter_def)
  have n: "min 4 (card (category ` {t \<in> set fiveExpenses. ttype t = ''expense''
                                   \<and> startsWith (date t) ''2024-03''} - {''__proto__''})) = 4"
    using t [where u = None, THEN conjunct1] l by simp
  from t [where u = None] w obtain rows
    where r: "screenBreakdown None ''2024-03'' fiveExpenses = Inr rows"
    by blast
  from t [where u = None] r have
    "length rows = min 4 (card (category ` {t \<in> set fiveExpenses. ttype t = ''expense''
                                   \<and> startsWith (date t) ''2024-03''} - {''__proto__''}))"
    and m: "map rowCategory rows = map fst (screenEntries ''2024-03'' fiveExpenses)"
    by blast+
  then have l4: "length rows = 4" using n by simp
  have m4: "map rowCategory rows = [''rent'', ''food'', ''gym'', ''fun'']"
    using m by (simp only: f)
  have x: "\<exists>rows. screenBreakdown None ''2024-03'' fiveExpenses = Inr rows
         \<and> length rows = 4
         \<and> map rowCategory rows = [''rent'', ''food'', ''gym'', ''fun'']"
    by (rule exI [where x = rows], intro conjI) (rule r l4 m4)+
  have b: "screenBreakdown (Some badUser) ''2024-03'' fiveExpenses = Inl RangeError"
    using t [where u = "Some badUser"] nw ne by blast
  show ?thesis
    by (intro conjI) (rule w x n b)+
qed

text \<open>An expense in the category \<^verbatim>\<open>__proto__\<close> leaves the accumulator as it is.\<close>

lemma proto_step: "screenStep acc (march5\<lparr> category := ''__proto__'' \<rparr>) = acc"
  by (simp add: screenStep_def accumulate_def)

lemma proto_filter:
  "filter (\<lambda>t. ttype t = ''expense'' \<and> startsWith (date t) ''2024-03'')
     [march5\<lparr> category := ''__proto__'' \<rparr>] = [march5\<lparr> category := ''__proto__'' \<rparr>]"
  by (simp add: march5_def startsWith_def)

text \<open>
  C10 as stated fails: an expense whose category is \<^verbatim>\<open>__proto__\<close> is one distinct
  category of the month, and the screen shows no row for it.
\<close>

theorem proto_category_dropped:
  "screenBreakdown None ''2024-03'' [march5\<lparr> category := ''__proto__'' \<rparr>] = Inr []
   \<and> screenEntries ''2024-03'' [march5\<lparr> category := ''__proto__'' \<rparr>] = []
   \<and> category ` {t \<in> set [march5\<lparr> category := ''__proto__'' \<rparr>].
                    ttype t = ''expense'' \<and> startsWith (date t) ''2024-03''} = {''__proto__''}
   \<and> min 4 (card {''__proto__''}) = 1"
proof -
  have e: "screenEntries ''2024-03'' [march5\<lparr> category := ''__proto__'' \<rparr>] = []"
    by (simp add: screenEntries_def proto_filter proto_step entries_def jsSort_def)
  have a: "screenBreakdown None ''2024-03'' [march5\<lparr> category := ''__proto__'' \<rparr>] = Inr []"
    by (simp add: screenBreakdown_def e)
  have "{t \<in> set [march5\<lparr> category := ''__proto__'' \<rparr>].
           ttype t = ''expense'' \<and> startsWith (date t) ''2024-03''}
        = set (filter (\<lambda>t. ttype t = ''expense'' \<and> startsWith (date t) ''2024-03'')
                 [march5\<lparr> category := ''__proto__'' \<rparr>])"
    by (simp only: set_filter)
  then have b: "category ` {t \<in> set [march5\<lparr> category := ''__proto__'' \<rparr>].
                    ttype t = ''expense'' \<and> startsWith (date t) ''2024-03''} = {''__proto__''}"
    by (simp only: proto_filter) simp
  have c: "min 4 (card {''__proto__''}) = 1" by simp
  show ?thesis
    by (intro conjI) (rule a e b c)+
qed

section \<open>Further properties of the derivations\<close>

lemma orZero_Fin: "orZero (Fin r) = Fin r"
  by (simp add: orZero_def truthy_def)

lemma map_of_accumulate_other:
  "k \<noteq> c \<Longrightarrow> map_of (accumulate grow z k acc) c = map_of acc c"
  by (simp add: accumulate_def update_conv' split: option.splits cell.splits)

lemma map_of_accumulate_same:
  "c \<noteq> ''__proto__'' \<Longrightarrow> c \<notin> set protoFunctions \<Longrightarrow>
   map_of (accumulate grow z c acc) c
   = (case map_of acc c of
        None \<Rightarrow> Some (Val z)
      | Some (Val v) \<Rightarrow> Some (Val (grow v))
      | Some HostText \<Rightarrow> Some HostText)"
  by (simp add: accumulate_def update_conv' split: option.splits cell.splits)

lemma categoryStep_other:
  "category t \<noteq> c \<Longrightarrow> map_of (categoryStep acc t) c = map_of acc c"
  by (simp add: categoryStep_def map_of_accumulate_other)

lemma categoryStep_same:
  "category t \<noteq> ''__proto__'' \<Longrightarrow> category t \<notin> set protoFunctions \<Longrightarrow>
   map_of (categoryStep acc t) (category t)
   = (case map_of acc (category t) of
        None \<Rightarrow> Some (Val (js_add (Fin 0) (parseFloat (amount t))))
      | Some (Val v) \<Rightarrow> Some (Val (js_add (orZero v) (parseFloat (amount t))))
      | Some HostText \<Rightarrow> Some HostText)"
  by (simp add: categoryStep_def map_of_accumulate_same)

lemma category_total:
  assumes fin: "\<forall>t \<in> set ts. \<exists>r. parseFloat (amount t) = Fin r"
    and c: "c \<noteq> ''__proto__''" "c \<notin> set protoFunctions"
  shows "map_of (foldl categoryStep [] ts) c
         = (if filter (\<lambda>t. category t = c) ts = [] then None
            else Some (Val (sumAmounts (filter (\<lambda>t. category t = c) ts))))"
  using fin
proof (induction ts rule: rev_induct)
  case Nil
  then show ?case by simp
next
  case (snoc t ts)
  then have ih: "map_of (foldl categoryStep [] ts) c
         = (if filter (\<lambda>t. category t = c) ts = [] then None
            else Some (Val (sumAmounts (filter (\<lambda>t. category t = c) ts))))"
    by simp
  from snoc.prems obtain a where a: "parseFloat (amount t) = Fin a" by auto
  show ?case
  proof (cases "category t = c")
    case False
    then show ?thesis
      by (simp add: categoryStep_other ih)
  next
    case True
    show ?thesis
    proof (cases "filter (\<lambda>t. category t = c) ts = []")
      case e: True
      then show ?thesis
        using True c ih a categoryStep_same [of t "foldl categoryStep [] ts"]
        by (simp add: sumAmounts_def)
    next
      case ne: False
      have "\<forall>t \<in> set (filter (\<lambda>t. category t = c) ts). \<exists>r. parseFloat (amount t) = Fin r"
        using snoc.prems by simp
      then obtain r where r: "sumAmounts (filter (\<lambda>t. category t = c) ts) = Fin r"
        using sumAmounts_finite by blast
      show ?thesis
        using True c ih ne r categoryStep_same [of t "foldl categoryStep [] ts"]
        by (simp add: sumAmounts_snoc orZero_Fin)
    qed
  qed
qed

lemma entries_plain:
  "\<forall>e \<in> set obj. \<not> isArrayIndex (fst e) \<Longrightarrow> entries obj = obj"
proof -
  assume h: "\<forall>e \<in> set obj. \<not> isArrayIndex (fst e)"
  then have "filter (\<lambda>e. isArrayIndex (fst e)) obj = []"
    by (simp add: filter_empty_conv)
  moreover have "filter (\<lambda>e. \<not> isArrayIndex (fst e)) obj = obj"
    using h by (simp add: filter_id_conv)
  ultimately show ?thesis by (simp add: entries_def)
qed

lemma keys_foldl_categoryStep:
  "distinct (map fst acc) \<Longrightarrow>
   distinct (map fst (foldl categoryStep acc ts))
   \<and> set (map fst (foldl categoryStep acc ts))
       = set (map fst acc) \<union> (category ` set ts - {''__proto__''})"
proof (induction ts arbitrary: acc)
  case Nil
  then show ?case by simp
next
  case (Cons t ts)
  have d: "distinct (map fst (categoryStep acc t))"
    using Cons.prems by (simp add: categoryStep_def keys_accumulate)
  have s: "set (map fst (categoryStep acc t))
           = set (map fst acc) \<union> ({category t} - {''__proto__''})"
    by (auto simp: categoryStep_def keys_accumulate)
  from Cons.IH [OF d] s show ?case by auto
qed

lemma mset_entries: "mset (entries obj) = mset obj"
proof -
  have "mset (entries obj)
        = mset (filter (\<lambda>e. isArrayIndex (fst e)) obj)
          + mset (filter (\<lambda>e. \<not> isArrayIndex (fst e)) obj)"
    by (simp add: entries_def)
  then show ?thesis by (simp only: mset_filter multiset_partition [symmetric])
qed

text \<open>
  The savings rate is 0 whenever the income is not greater than 0, in particular when it
  is zero, whatever the expenses are.
\<close>

theorem savings_rate_guard:
  "(\<not> js_gt (income (financialMetrics cm txs)) (Fin 0)
      \<longrightarrow> savingsRate (financialMetrics cm txs) = Fin 0)
   \<and> (isZero (income (financialMetrics cm txs))
      \<longrightarrow> savingsRate (financialMetrics cm txs) = Fin 0)"
proof -
  have a: "\<not> js_gt (income (financialMetrics cm txs)) (Fin 0)
      \<longrightarrow> savingsRate (financialMetrics cm txs) = Fin 0"
    by (simp add: financialMetrics_def Let_def)
  have "isZero (income (financialMetrics cm txs))
        \<longrightarrow> \<not> js_gt (income (financialMetrics cm txs)) (Fin 0)"
    using js_gt_pos by blast
  then show ?thesis using a by blast
qed

text \<open>A month with an expense and no income.\<close>

theorem savings_rate_guard_witness:
  "isZero (income (financialMetrics ''2024-03'' [march5]))
   \<and> expenses (financialMetrics ''2024-03'' [march5]) = Fin 800
   \<and> savingsRate (financialMetrics ''2024-03'' [march5]) = Fin 0"
proof -
  have i: "income (financialMetrics ''2024-03'' [march5]) = Fin 0"
    and e: "expenses (financialMetrics ''2024-03'' [march5]) = Fin 800"
    by (simp_all add: financialMetrics_def Let_def sumAmounts_def march5_def parse_defs)
  have z: "isZero (income (financialMetrics ''2024-03'' [march5]))"
    by (simp add: i)
  then have "savingsRate (financialMetrics ''2024-03'' [march5]) = Fin 0"
    using savings_rate_guard [of "''2024-03''" "[march5]"] by blast
  then show ?thesis using z e by blast
qed

text \<open>
  The breakdown of the insights derivation groups and sums: when every expense amount of
  the month is read as a finite number, a category (other than the names inherited from
  the prototype) has an entry exactly when the month has an expense in it, and the entry
  is the sum of the parsed amounts of these expenses.
\<close>

theorem category_totals:
  "(\<forall>t \<in> set txs. ttype t = ''expense'' \<and> startsWith (date t) cm
        \<longrightarrow> (\<exists>r. parseFloat (amount t) = Fin r))
   \<and> c \<noteq> ''__proto__'' \<and> c \<notin> set protoFunctions
   \<longrightarrow> map_of (categoryBreakdown cm txs) c
       = (if filter (\<lambda>t. ttype t = ''expense'' \<and> startsWith (date t) cm \<and> category t = c) txs = []
          then None
          else Some (Val (sumAmounts
                 (filter (\<lambda>t. ttype t = ''expense'' \<and> startsWith (date t) cm \<and> category t = c)
                    txs))))"
proof
  let ?ts = "filter (\<lambda>t. ttype t = ''expense'' \<and> startsWith (date t) cm) txs"
  assume h: "(\<forall>t \<in> set txs. ttype t = ''expense'' \<and> startsWith (date t) cm
        \<longrightarrow> (\<exists>r. parseFloat (amount t) = Fin r))
   \<and> c \<noteq> ''__proto__'' \<and> c \<notin> set protoFunctions"
  then have fin: "\<forall>t \<in> set ?ts. \<exists>r. parseFloat (amount t) = Fin r" by simp
  have f: "filter (\<lambda>t. category t = c) ?ts
           = filter (\<lambda>t. ttype t = ''expense'' \<and> startsWith (date t) cm \<and> category t = c) txs"
    by (induction txs) auto
  from h have c: "c \<noteq> ''__proto__''" "c \<notin> set protoFunctions" by simp_all
  show "map_of (categoryBreakdown cm txs) c
       = (if filter (\<lambda>t. ttype t = ''expense'' \<and> startsWith (date t) cm \<and> category t = c) txs = []
          then None
          else Some (Val (sumAmounts
                 (filter (\<lambda>t. ttype t = ''expense'' \<and> startsWith (date t) cm \<and> category t = c)
                    txs))))"
    unfolding categoryBreakdown_def f [symmetric]
    using fin c by (rule category_total)
qed

text \<open>Two expenses for rent, of 800 and 50, among other transactions.\<close>

theorem category_totals_witness:
  "parseFloat ''800'' = Fin 800 \<and> parseFloat ''45.50'' = Fin (91 / 2)
   \<and> parseFloat ''50'' = Fin 50
   \<and> map_of (categoryBreakdown ''2024-03''
               [march1, march5, march5b, april2, march5\<lparr> amount := ''50'' \<rparr>]) ''rent''
       = Some (Val (Fin 850))"
proof -
  let ?txs = "[march1, march5, march5b, april2, march5\<lparr> amount := ''50'' \<rparr>]"
  have p: "parseFloat ''800'' = Fin 800 \<and> parseFloat ''45.50'' = Fin (91 / 2)
           \<and> parseFloat ''50'' = Fin 50"
    by (simp add: parse_defs)
  have h: "\<forall>t \<in> set ?txs. ttype t = ''expense'' \<and> startsWith (date t) ''2024-03''
             \<longrightarrow> (\<exists>r. parseFloat (amount t) = Fin r)"
  proof -
    from p have "\<exists>r. parseFloat ''800'' = Fin r" and "\<exists>r. parseFloat ''45.50'' = Fin r"
      and "\<exists>r. parseFloat ''50'' = Fin r" by blast+
    then show ?thesis
      by (simp add: march1_def march5_def march5b_def april2_def startsWith_def)
  qed
  have k: "''rent'' \<noteq> ''__proto__'' \<and> ''rent'' \<notin> set protoFunctions"
    by (simp add: protoFunctions_def)
  have f: "filter (\<lambda>t. ttype t = ''expense'' \<and> startsWith (date t) ''2024-03''
                       \<and> category t = ''rent'') ?txs
           = [march5, march5\<lparr> amount := ''50'' \<rparr>]"
    by (simp add: march1_def march5_def march5b_def april2_def startsWith_def)
  have s: "sumAmounts [march5, march5\<lparr> amount := ''50'' \<rparr>] = Fin 850"
    using p by (simp add: sumAmounts_def march5_def)
  have "map_of (categoryBreakdown ''2024-03'' ?txs) ''rent''
        = (if filter (\<lambda>t. ttype t = ''expense'' \<and> startsWith (date t) ''2024-03''
                             \<and> category t = ''rent'') ?txs = []
          then None
          else Some (Val (sumAmounts
                 (filter (\<lambda>t. ttype t = ''expense'' \<and> startsWith (date t) ''2024-03''
                              \<and> category t = ''rent'') ?txs))))"
    using category_totals [of ?txs "''2024-03''" "''rent''"] h k by blast
  then have "map_of (categoryBreakdown ''2024-03'' ?txs) ''rent'' = Some (Val (Fin 850))"
    by (simp only: f s) simp
  then show ?thesis using p by blast
qed

text \<open>
  The sorted breakdown of the insights derivation holds the entries of the accumulator.
  When no total is \<open>NaN\<close> it is in descending order of the totals, and entries with equal
  totals stand as \<^verbatim>\<open>Object.entries\<close> lists them; that is the creation order of the keys
  when no category name is an array index.
\<close>

theorem breakdown_order:
  "mset (sortedBreakdown cm txs) = mset (categoryBreakdown cm txs)
   \<and> ((\<forall>e \<in> set (categoryBreakdown cm txs). cellNumber (snd e) \<noteq> NaN) \<longrightarrow>
        sorted_wrt (\<lambda>a b. js_ge (cellNumber (snd a)) (cellNumber (snd b)))
          (sortedBreakdown cm txs)
        \<and> (\<forall>k. filter (\<lambda>e. cellNumber (snd e) = k) (sortedBreakdown cm txs)
               = filter (\<lambda>e. cellNumber (snd e) = k) (entries (categoryBreakdown cm txs))))
   \<and> ((\<forall>e \<in> set (categoryBreakdown cm txs). \<not> isArrayIndex (fst e)) \<longrightarrow>
        entries (categoryBreakdown cm txs) = categoryBreakdown cm txs)"
proof -
  let ?obj = "categoryBreakdown cm txs"
  let ?key = "\<lambda>e :: string \<times> jsnum cell. cellNumber (snd e)"
  have m: "mset (sortedBreakdown cm txs) = mset ?obj"
    by (simp add: sortedBreakdown_def mset_jsSort mset_entries)
  have o: "(\<forall>e \<in> set ?obj. ?key e \<noteq> NaN) \<longrightarrow>
        sorted_wrt (\<lambda>a b. js_ge (?key a) (?key b)) (sortedBreakdown cm txs)
        \<and> (\<forall>k. filter (\<lambda>e. ?key e = k) (sortedBreakdown cm txs)
               = filter (\<lambda>e. ?key e = k) (entries ?obj))"
  proof
    assume "\<forall>e \<in> set ?obj. ?key e \<noteq> NaN"
    moreover have "set (entries ?obj) = set ?obj"
      using mset_entries [of ?obj] by (metis set_mset_mset)
    ultimately have "\<forall>e \<in> set (entries ?obj). ?key e \<noteq> NaN" by simp
    then have "sorted_wrt (\<lambda>a b. js_ge (?key a) (?key b)) (jsSort (descBy ?key) (entries ?obj))"
      by (rule sorted_jsSort_desc)
    moreover have "\<forall>k. filter (\<lambda>e. ?key e = k) (jsSort (descBy ?key) (entries ?obj))
               = filter (\<lambda>e. ?key e = k) (entries ?obj)"
      by (simp only: filter_jsSort_desc) simp
    ultimately show "sorted_wrt (\<lambda>a b. js_ge (?key a) (?key b)) (sortedBreakdown cm txs)
        \<and> (\<forall>k. filter (\<lambda>e. ?key e = k) (sortedBreakdown cm txs)
               = filter (\<lambda>e. ?key e = k) (entries ?obj))"
      by (simp only: sortedBreakdown_def) simp
  qed
  have p: "(\<forall>e \<in> set ?obj. \<not> isArrayIndex (fst e)) \<longrightarrow> entries ?obj = ?obj"
    using entries_plain by blast
  show ?thesis using m o p by blast
qed

text \<open>
  Three categories, two with the total 850: the category \<^verbatim>\<open>7\<close>, an array index, is
  listed before \<^verbatim>\<open>food\<close> although it was met later.
\<close>

theorem breakdown_order_witness:
  "sortedBreakdown ''2024-03''
     [march5\<lparr> category := ''food'', amount := ''850'' \<rparr>,
      march5\<lparr> category := ''7'', amount := ''850'' \<rparr>, march5]
   = [(''7'', Val (Fin 850)), (''food'', Val (Fin 850)), (''rent'', Val (Fin 800))]
   \<and> sorted_wrt (\<lambda>a b. js_ge (cellNumber (snd a)) (cellNumber (snd b)))
       (sortedBreakdown ''2024-03''
          [march5\<lparr> category := ''food'', amount := ''850'' \<rparr>,
           march5\<lparr> category := ''7'', amount := ''850'' \<rparr>, march5])
   \<and> entries (categoryBreakdown ''2024-03''
                 [march5\<lparr> category := ''food'', amount := ''850'' \<rparr>, march5])
       = categoryBreakdown ''2024-03''
           [march5\<lparr> category := ''food'', amount := ''850'' \<rparr>, march5]"
proof -
  let ?txs = "[march5\<lparr> category := ''food'', amount := ''850'' \<rparr>,
                 march5\<lparr> category := ''7'', amount := ''850'' \<rparr>, march5]"
  let ?two = "[march5\<lparr> category := ''food'', amount := ''850'' \<rparr>, march5]"
  have b: "categoryBreakdown ''2024-03'' ?txs
           = [(''food'', Val (Fin 850)), (''7'', Val (Fin 850)), (''rent'', Val (Fin 800))]"
    by (simp add: categoryBreakdown_def categoryStep_def accumulate_def protoFunctions_def
        march5_def parse_defs num_defs)
  have b2: "categoryBreakdown ''2024-03'' ?two
           = [(''food'', Val (Fin 850)), (''rent'', Val (Fin 800))]"
    by (simp add: categoryBreakdown_def categoryStep_def accumulate_def protoFunctions_def
        march5_def parse_defs num_defs)
  have v: "sortedBreakdown ''2024-03'' ?txs
           = [(''7'', Val (Fin 850)), (''food'', Val (Fin 850)), (''rent'', Val (Fin 800))]"
    by (simp add: sortedBreakdown_def b entries_def isArrayIndex_def isDigit_def digitsVal_def
        jsSort_def descBy_lt)
  have n: "\<forall>e \<in> set (categoryBreakdown ''2024-03'' ?txs). cellNumber (snd e) \<noteq> NaN"
    by (simp add: b)
  have s: "sorted_wrt (\<lambda>a b. js_ge (cellNumber (snd a)) (cellNumber (snd b)))
       (sortedBreakdown ''2024-03'' ?txs)"
    using breakdown_order [of "''2024-03''" ?txs] n by blast
  have i: "\<forall>e \<in> set (categoryBreakdown ''2024-03'' ?two). \<not> isArrayIndex (fst e)"
    by (simp add: b2 isArrayIndex_def isDigit_def)
  have e: "entries (categoryBreakdown ''2024-03'' ?two) = categoryBreakdown ''2024-03'' ?two"
    using breakdown_order [of "''2024-03''" ?two] i by blast
  show ?thesis using v s e by blast
qed

text \<open>
  The example scenario of one goal with 500 of 1000: the goal insight shows the progress
  50.
\<close>

theorem goal_progress_example:
  "topGoal [emergencyFund] = Some \<lparr> goalName = ''Emergency Fund'', progress = Fin 50 \<rparr>
   \<and> map_sum id (\<lambda>ins. message (ins ! 2))
        (insights None ''2024-03'' [] [emergencyFund] (financialMetrics ''2024-03'' []))
       = Inr [Lit ''Emergency Fund'', Lit '' is '', Fixed1 (Fin 50),
              Lit ''% complete - keep it up!'']"
proof -
  have a: "topGoal [emergencyFund] = Some \<lparr> goalName = ''Emergency Fund'', progress = Fin 50 \<rparr>"
    by (simp add: topGoal_def rankedGoals_def jsSort_def goalProgressOf_def emergencyFund_def
        parse_defs num_defs)
  have "insights None ''2024-03'' [] [emergencyFund] (financialMetrics ''2024-03'' [])
        = Inr (insightList [Lit ''No spending data available yet.''] [emergencyFund]
                 (financialMetrics ''2024-03'' []))"
    by (rule insights_Inr) (simp add: spendingMessage_None topCategory_Nil)
  then have b: "map_sum id (\<lambda>ins. message (ins ! 2))
        (insights None ''2024-03'' [] [emergencyFund] (financialMetrics ''2024-03'' []))
       = Inr [Lit ''Emergency Fund'', Lit '' is '', Fixed1 (Fin 50),
              Lit ''% complete - keep it up!'']"
    by (simp only: map_sum.simps insightList_message2 a) simp
  show ?thesis
    by (intro conjI) (rule a b)+
qed

text \<open>
  The spending insight reads the user's currency: the same month, for a user without a
  record and for one whose currency is the euro.
\<close>

theorem spending_insight_currency:
  "map_sum id (\<lambda>ins. message (ins ! 1))
      (insights None ''2024-03'' [march5] [] (financialMetrics ''2024-03'' [march5]))
     = Inr [Lit ''Your top spending is '', Lit ''rent'', Lit '': '', Money ''USD'' (Fin 800),
            Lit '' this month.'']
   \<and> map_sum id (\<lambda>ins. message (ins ! 1))
      (insights (Some euroUser) ''2024-03'' [march5] [] (financialMetrics ''2024-03'' [march5]))
     = Inr [Lit ''Your top spending is '', Lit ''rent'', Lit '': '', Money ''EUR'' (Fin 800),
            Lit '' this month.'']"
proof -
  have e: "wellFormedCurrency (currencyOf (Some euroUser))"
    and c: "currencyOf (Some euroUser) = ''EUR''" "currencyOf None = ''USD''"
    by (simp_all add: wellFormedCurrency_def isAsciiLetter_def currencyOf_def euroUser_def)
  have s: "\<And>u. wellFormedCurrency (currencyOf u) \<Longrightarrow>
     spendingMessage u ''2024-03'' [march5]
     = Inr [Lit ''Your top spending is '', Lit ''rent'', Lit '': '',
            Money (currencyOf u) (Fin 800), Lit '' this month.'']"
    using spendingMessage_ok [OF _ topCategory_march5] by (simp add: orZero_def truthy_def)
  have a: "map_sum id (\<lambda>ins. message (ins ! 1))
      (insights None ''2024-03'' [march5] [] (financialMetrics ''2024-03'' [march5]))
     = Inr [Lit ''Your top spending is '', Lit ''rent'', Lit '': '', Money ''USD'' (Fin 800),
            Lit '' this month.'']"
    using insights_Inr [OF s [OF wellFormed_None]]
    by (simp only: map_sum.simps insightList_message1 c)
  have b: "map_sum id (\<lambda>ins. message (ins ! 1))
      (insights (Some euroUser) ''2024-03'' [march5] [] (financialMetrics ''2024-03'' [march5]))
     = Inr [Lit ''Your top spending is '', Lit ''rent'', Lit '': '', Money ''EUR'' (Fin 800),
            Lit '' this month.'']"
    using insights_Inr [OF s [OF e]]
    by (simp only: map_sum.simps insightList_message1 c)
  show ?thesis
    by (intro conjI) (rule a b)+
qed

end
